theory Spec2Isabelle
  imports Main
begin

section \<open>Data model of the chat page (src/pages/Chat/index.tsx)\<close>

text \<open>
  The interfaces \<open>Chat\<close> and \<open>Message\<close> of the page. An optional field is an
  \<open>option\<close>; \<open>None\<close> stands for \<open>undefined\<close> (and for \<open>null\<close> in \<open>last_message\<close>).
  The fields \<open>id\<close>, \<open>text\<close>, \<open>type\<close>, \<open>image\<close> and \<open>name\<close> carry a prefix, their
  plain names being taken in HOL. Strings are lists of 8-bit characters.

  The interface declares \<open>body\<close> a string, but the fetchers fill it from a response
  typed \<open>any\<close>, so at run time it holds whatever the response has there. \<open>body\<close> is
  \<open>Some\<close> of the string when that is a string, and \<open>None\<close> when it is not one
  (\<open>undefined\<close> for a text object without a body).
\<close>

record text_payload =
  body :: "string option"

record image_payload =
  link :: "string option"
  caption :: "string option"

record message =
  msg_id :: string
  msg_text :: "text_payload option"
  from_me :: "bool option"
  createdAt :: "nat option"
  msg_type :: "string option"
  msg_image :: "image_payload option"

record chat =
  chat_id :: "string option"
  chat_name :: "string option"
  last_message :: "message option"

text \<open>
  A message as the gateway returns it in \<open>data.messages\<close>:
  \<open>{ id, text?: {body}, from_me, timestamp, type, image? }\<close>. The code reads it as
  \<open>any\<close>: \<open>r_text\<close> is \<open>None\<close> when \<open>message.text\<close> is falsy, and a text object
  need not carry a string \<open>body\<close>.
\<close>

record remote_message =
  r_id :: string
  r_text :: "text_payload option"
  r_from_me :: "bool option"
  r_timestamp :: "nat option"
  r_type :: "string option"
  r_image :: "image_payload option"

text \<open>The object literal that all three message fetchers build for each remote message.\<close>

definition to_message :: "remote_message \<Rightarrow> message" where
  "to_message m =
     \<lparr> msg_id = r_id m,
       msg_text = Some \<lparr> body = (case r_text m of Some t \<Rightarrow> body t | None \<Rightarrow> Some '''') \<rparr>,
       from_me = r_from_me m,
       createdAt = r_timestamp m,
       msg_type = r_type m,
       msg_image = (case r_image m of Some i \<Rightarrow> Some i | None \<Rightarrow> None) \<rparr>"

section \<open>The outside world\<close>

datatype js_error = Error string

datatype completion = Returned | Threw js_error

text \<open>
  What one call of the browser's \<open>fetch\<close> gives: the promise rejects, or it resolves to a
  response with its \<open>ok\<close> flag and its body. The body is \<open>None\<close> when \<open>response.json()\<close>
  rejects or the parsed object lacks the array the code maps over (the \<open>map\<close> call then
  throws inside the same \<open>try\<close>).
\<close>

datatype 'a fetch_result = Fetch_rejected | Fetch_response bool "'a option"

text \<open>The value the \<open>try\<close> block gets to work with, if it gets that far.\<close>

fun fetch_json :: "'a fetch_result \<Rightarrow> 'a option" where
  "fetch_json Fetch_rejected = None"
| "fetch_json (Fetch_response ok b) = (if ok then b else None)"

text \<open>
  What one \<open>axios.request\<close> gives: it rejects (transport error or non-2xx status), or it
  resolves with \<open>response.data\<close>, here \<open>None\<close> when the data is falsy or lacks the field
  the code reads.
\<close>

datatype 'a axios_result = Axios_rejected js_error | Axios_response "'a option"

fun axios_data :: "'a axios_result \<Rightarrow> 'a option" where
  "axios_data (Axios_rejected e) = None"
| "axios_data (Axios_response d) = d"

text \<open>
  A scripted network for a retry loop: attempt \<open>i\<close> gets the \<open>i\<close>-th listed result, and
  every attempt past the end of the script is rejected.
\<close>

definition script :: "'a fetch_result list \<Rightarrow> nat \<Rightarrow> 'a fetch_result" where
  "script rs i = (if i < length rs then rs ! i else Fetch_rejected)"

record user =
  email :: "string option"

text \<open>A document of the \<open>companies\<close> collection: field name to (string) value.\<close>

type_synonym document = "string \<rightharpoonup> string"

record ghl_config =
  ghl_id :: "string option"
  ghl_secret :: "string option"
  refresh_token :: "string option"

record token_data =
  new_access_token :: string
  new_refresh_token :: string

text \<open>The outcomes of the external calls that \<open>ghlToken\<close> makes, in the order it makes them.\<close>

record env =
  currentUser :: "user option"
  getDoc_error :: "js_error option"
  chats_response :: "chat list axios_result"
  oauth_response :: "token_data axios_result"
  setDoc_error :: "js_error option"
  contacts_error :: "js_error option"

section \<open>State and effects\<close>

datatype request =
    Get_chats "string option"
  | Get_messages string "string option"
  | Post_send string string "string option"
  | Post_oauth_token "string option" "string option" "string option"
  | Get_contacts string

datatype event =
    Request request
  | Delay nat
  | Set_loading bool
  | Console_error string
  | Firestore_get string
  | Firestore_set string "(string \<times> string) list"

text \<open>
  The component's React state, the variables its closures share, the \<open>companies\<close>
  collection, and the trace of effects in the order they happen: requests sent, timer
  waits, writes of the loading flag, \<open>console.error\<close> output and document store calls.
  (\<open>console.log\<close> output is not recorded.)
\<close>

record state =
  chats :: "chat list"
  selectedChatId :: "string option"
  messages :: "message list"
  newMessage :: string
  isLoading :: bool
  selectedIcon :: "string option"
  WHAPI_ACCESS_TOKEN :: "string option"
  companyId :: string
  ghlConfig :: ghl_config
  firestore :: "string \<rightharpoonup> document"
  trace :: "event list"

text \<open>The state of the first render, over a given document store.\<close>

definition Main_init :: "(string \<rightharpoonup> document) \<Rightarrow> state" where
  "Main_init db =
     \<lparr> chats = [], selectedChatId = None, messages = [], newMessage = '''',
       isLoading = False, selectedIcon = None, WHAPI_ACCESS_TOKEN = Some '''',
       companyId = ''014'',
       ghlConfig = \<lparr> ghl_id = Some '''', ghl_secret = Some '''', refresh_token = Some '''' \<rparr>,
       firestore = db, trace = [] \<rparr>"

definition emit :: "event \<Rightarrow> state \<Rightarrow> state" where
  "emit e s = s\<lparr> trace := trace s @ [e] \<rparr>"

definition setLoading :: "bool \<Rightarrow> state \<Rightarrow> state" where
  "setLoading b s = emit (Set_loading b) (s\<lparr> isLoading := b \<rparr>)"

definition setChats :: "chat list \<Rightarrow> state \<Rightarrow> state" where
  "setChats cs s = s\<lparr> chats := cs \<rparr>"

definition setMessages :: "message list \<Rightarrow> state \<Rightarrow> state" where
  "setMessages ms s = s\<lparr> messages := ms \<rparr>"

definition setNewMessage :: "string \<Rightarrow> state \<Rightarrow> state" where
  "setNewMessage t s = s\<lparr> newMessage := t \<rparr>"

definition setSelectedIcon :: "string \<Rightarrow> state \<Rightarrow> state" where
  "setSelectedIcon i s = s\<lparr> selectedIcon := Some i \<rparr>"

definition setSelectedChatId :: "string option \<Rightarrow> state \<Rightarrow> state" where
  "setSelectedChatId c s = s\<lparr> selectedChatId := c \<rparr>"

definition request :: "request \<Rightarrow> state \<Rightarrow> state" where
  "request r s = emit (Request r) s"

definition delay :: "nat \<Rightarrow> state \<Rightarrow> state" where
  "delay ms s = emit (Delay ms) s"

definition console_error :: "string \<Rightarrow> state \<Rightarrow> state" where
  "console_error msg s = emit (Console_error msg) s"

subsection \<open>Strings\<close>

text \<open>Decimal rendering of a number inside a template string.\<close>

definition digit_char :: "nat \<Rightarrow> char" where
  "digit_char d = char_of (48 + d)"

fun show_nat :: "nat \<Rightarrow> string" where
  "show_nat n =
     (if n < 10 then [digit_char n] else show_nat (n div 10) @ [digit_char (n mod 10)])"

declare show_nat.simps [simp del]

text \<open>
  \<open>String.prototype.trim\<close>, on the white space and line terminators that fit an 8-bit
  character: tab, line feed, vertical tab, form feed, carriage return, space, no-break space.
\<close>

definition is_whitespace :: "char \<Rightarrow> bool" where
  "is_whitespace c = (of_char c \<in> {9, 10, 11, 12, 13, 32, 160 :: nat})"

definition trim :: "string \<Rightarrow> string" where
  "trim t = rev (dropWhile is_whitespace (rev (dropWhile is_whitespace t)))"

text \<open>\<open>!selectedChatId\<close>: true for \<open>null\<close> and for the empty string.\<close>

definition no_chat_selected :: "string option \<Rightarrow> bool" where
  "no_chat_selected c = (case c of None \<Rightarrow> True | Some i \<Rightarrow> i = [])"

section \<open>Fetching chats and messages\<close>

text \<open>\<open>fetchChatsWithRetry\<close> of the component body (run after the config is loaded): one attempt.\<close>

definition fetchChatsWithRetry :: "chat list axios_result \<Rightarrow> state \<Rightarrow> state" where
  "fetchChatsWithRetry response s =
     (let s1 = request (Get_chats (WHAPI_ACCESS_TOKEN s)) (setLoading True s) in
      case axios_data response of
        Some cs \<Rightarrow> setLoading False (setChats (map (\<lambda>chat. chat) cs) s1)
      | None \<Rightarrow>
          console_error ''Failed to fetch chats''
            (setLoading False (console_error ''Failed to fetch chats:'' s1)))"

text \<open>
  The \<open>while\<close> loop of \<open>fetchMessagesWithRetry\<close> in \<open>handleWhatsappClick\<close> and in
  \<open>handleRefreshClick\<close> (the two differ in \<open>maxRetries\<close> and \<open>retryDelay\<close> only).
  \<open>net retryCount\<close> is what the attempt made at that count receives. A successful attempt
  returns from inside \<open>try\<close>, through \<open>finally\<close>; a failed one logs, counts, waits, and
  then runs \<open>finally\<close>.
\<close>

function fetchMessagesWithRetry_loop ::
  "nat \<Rightarrow> nat \<Rightarrow> (nat \<Rightarrow> remote_message list fetch_result) \<Rightarrow> string \<Rightarrow> nat \<Rightarrow> state \<Rightarrow> state"
where
  "fetchMessagesWithRetry_loop maxRetries retryDelay net cid retryCount s =
     (if retryCount < maxRetries then
        (let s1 = request (Get_messages cid (WHAPI_ACCESS_TOKEN s)) (setLoading True s) in
         case fetch_json (net retryCount) of
           Some ms \<Rightarrow> setLoading False (setMessages (map to_message ms) s1)
         | None \<Rightarrow>
             fetchMessagesWithRetry_loop maxRetries retryDelay net cid (retryCount + 1)
               (setLoading False
                 (delay retryDelay (console_error ''Failed to fetch messages:'' s1))))
      else
        console_error (''Failed to fetch messages after '' @ show_nat maxRetries @ '' retries'') s)"
  by pat_completeness auto
termination
  by (relation "measure (\<lambda>(maxRetries, retryDelay, net, cid, retryCount, s). maxRetries - retryCount)")
     auto

declare fetchMessagesWithRetry_loop.simps [simp del]

definition fetchMessagesWithRetry ::
  "nat \<Rightarrow> nat \<Rightarrow> (nat \<Rightarrow> remote_message list fetch_result) \<Rightarrow> state \<Rightarrow> state"
where
  "fetchMessagesWithRetry maxRetries retryDelay net s =
     (case selectedChatId s of
        None \<Rightarrow> s
      | Some cid \<Rightarrow>
          if cid = [] then s
          else fetchMessagesWithRetry_loop maxRetries retryDelay net cid 0 s)"


definition handleWhatsappClick ::
  "string \<Rightarrow> (nat \<Rightarrow> remote_message list fetch_result) \<Rightarrow> state \<Rightarrow> state"
where
  "handleWhatsappClick iconId net s = fetchMessagesWithRetry 20 1 net (setSelectedIcon iconId s)"

text \<open>
  \<open>fetchMessagesWithRetry\<close> of \<open>handleRefreshClick\<close> is called, not awaited, by the
  chat fetcher below. What it does before its first \<open>await\<close> happens inside that call:
  the entry check, the loading flag, the request going out.
\<close>

definition fetchMessagesWithRetry_begin :: "state \<Rightarrow> state" where
  "fetchMessagesWithRetry_begin s =
     (case selectedChatId s of
        None \<Rightarrow> s
      | Some cid \<Rightarrow>
          if cid = [] then s
          else request (Get_messages cid (WHAPI_ACCESS_TOKEN s)) (setLoading True s))"

text \<open>
  \<open>fetchChatsWithRetry\<close> of \<open>handleRefreshClick\<close>, up to its own completion.
\<close>

function fetchChatsWithRetry_loop ::
  "nat \<Rightarrow> nat \<Rightarrow> (nat \<Rightarrow> chat list fetch_result) \<Rightarrow> nat \<Rightarrow> state \<Rightarrow> state"
where
  "fetchChatsWithRetry_loop maxRetries retryDelay net retryCount s =
     (if retryCount < maxRetries then
        (let s1 = request (Get_chats (WHAPI_ACCESS_TOKEN s)) (setLoading True s) in
         case fetch_json (net retryCount) of
           Some cs \<Rightarrow>
             setLoading False
               (fetchMessagesWithRetry_begin (setChats (map (\<lambda>chat. chat) cs) s1))
         | None \<Rightarrow>
             fetchChatsWithRetry_loop maxRetries retryDelay net (retryCount + 1)
               (setLoading False
                 (delay retryDelay (console_error ''Failed to fetch chats:'' s1))))
      else
        console_error (''Failed to fetch chats after '' @ show_nat maxRetries @ '' retries'') s)"
  by pat_completeness auto
termination
  by (relation "measure (\<lambda>(maxRetries, retryDelay, net, retryCount, s). maxRetries - retryCount)")
     auto

declare fetchChatsWithRetry_loop.simps [simp del]

definition handleRefreshClick_fetchChatsWithRetry ::
  "nat \<Rightarrow> nat \<Rightarrow> (nat \<Rightarrow> chat list fetch_result) \<Rightarrow> state \<Rightarrow> state"
where
  "handleRefreshClick_fetchChatsWithRetry maxRetries retryDelay net s =
     fetchChatsWithRetry_loop maxRetries retryDelay net 0 s"

text \<open>
  The click starts the chat fetcher with \<open>maxRetries = 10\<close> and \<open>retryDelay = 1000\<close>; the
  handler's message fetcher, started by a successful chat fetch, has the same constants.
\<close>

definition handleRefreshClick :: "(nat \<Rightarrow> chat list fetch_result) \<Rightarrow> state \<Rightarrow> state" where
  "handleRefreshClick net s = handleRefreshClick_fetchChatsWithRetry 10 1000 net s"

definition handleRefreshClick_fetchMessagesWithRetry ::
  "(nat \<Rightarrow> remote_message list fetch_result) \<Rightarrow> state \<Rightarrow> state"
where
  "handleRefreshClick_fetchMessagesWithRetry net s = fetchMessagesWithRetry 10 1000 net s"

subsection \<open>The effect on \<open>selectedChatId\<close>\<close>

text \<open>The click on an entry of the chat list: \<open>setSelectedChatId(chat.id!)\<close>.\<close>

definition select_chat :: "chat \<Rightarrow> state \<Rightarrow> state" where
  "select_chat c s = setSelectedChatId (chat_id c) s"

text \<open>
  The effect's \<open>fetchMessagesWithRetry\<close>: one attempt through axios. The first definition
  is the state while the request is in flight, the second the whole function.
\<close>

definition useEffect_fetchMessagesWithRetry_pending :: "string \<Rightarrow> state \<Rightarrow> state" where
  "useEffect_fetchMessagesWithRetry_pending cid s =
     request (Get_messages cid (WHAPI_ACCESS_TOKEN s)) (setLoading True s)"

definition useEffect_fetchMessagesWithRetry ::
  "remote_message list axios_result \<Rightarrow> state \<Rightarrow> state"
where
  "useEffect_fetchMessagesWithRetry response s =
     (case selectedChatId s of
        None \<Rightarrow> s
      | Some cid \<Rightarrow>
          if cid = [] then s
          else
            (let s1 = useEffect_fetchMessagesWithRetry_pending cid s in
             case axios_data response of
               Some ms \<Rightarrow> setLoading False (setMessages (map to_message ms) s1)
             | None \<Rightarrow>
                 console_error ''Failed to fetch messages''
                   (setLoading False (console_error ''Failed to fetch messages:'' s1))))"

section \<open>Sending a message\<close>

text \<open>The body of a successful send response is \<open>data.messageId\<close>.\<close>

definition newMsg :: "string \<Rightarrow> string \<Rightarrow> message" where
  "newMsg messageId t =
     \<lparr> msg_id = messageId, msg_text = Some \<lparr> body = Some t \<rparr>, from_me = Some True,
       createdAt = Some 0, msg_type = Some ''text'', msg_image = None \<rparr>"

definition handleSendMessage :: "string fetch_result \<Rightarrow> state \<Rightarrow> state" where
  "handleSendMessage response s =
     (if trim (newMessage s) = [] then s
      else case selectedChatId s of
        None \<Rightarrow> s
      | Some cid \<Rightarrow>
          if cid = [] then s
          else
            (let s1 = request (Post_send cid (newMessage s) (WHAPI_ACCESS_TOKEN s)) s in
             case fetch_json response of
               Some messageId \<Rightarrow>
                 setNewMessage ''''
                   (setChats
                      (map (\<lambda>chat. if chat_id chat = Some cid
                                    then chat\<lparr> last_message := Some (newMsg messageId (newMessage s)) \<rparr>
                                    else chat)
                           (chats s))
                      (setMessages (messages s @ [newMsg messageId (newMessage s)]) s1))
             | None \<Rightarrow> console_error ''Failed to send message:'' s1))"

section \<open>Rendering a message bubble\<close>


section \<open>Tenant configuration and token refresh\<close>

text \<open>
  \<open>searchConversation\<close>: one GET with the access token as bearer. Its \<open>catch\<close> block
  logs and ends; nothing is thrown on.
\<close>

definition searchConversation :: "js_error option \<Rightarrow> string \<Rightarrow> state \<Rightarrow> completion \<times> state" where
  "searchConversation failure accessToken s =
     (let s1 = request (Get_contacts accessToken) s in
      case failure of
        None \<Rightarrow> (Returned, s1)
      | Some err \<Rightarrow> (Returned, console_error ''Error searching conversation:'' s1))"

text \<open>\<open>user?.email\<close>\<close>

definition user_email :: "user option \<Rightarrow> string option" where
  "user_email u = (case u of None \<Rightarrow> None | Some v \<Rightarrow> email v)"

definition fetchConfigFromDatabase :: "env \<Rightarrow> state \<Rightarrow> completion \<times> state" where
  "fetchConfigFromDatabase e s =
     (let s1 = (if user_email (currentUser e) = Some ''admin@beverly.com''
                  then s\<lparr> companyId := ''014'' \<rparr>
                else if user_email (currentUser e) = Some ''admin@billert.com''
                  then s\<lparr> companyId := ''011'' \<rparr>
                else s);
          s2 = emit (Firestore_get (companyId s1)) s1
      in case getDoc_error e of
           Some err \<Rightarrow> (Threw err, console_error ''Error fetching config:'' s2)
         | None \<Rightarrow>
             (case firestore s2 (companyId s2) of
                None \<Rightarrow> (Returned, s2)
              | Some data \<Rightarrow>
                  (Returned,
                   fetchChatsWithRetry (chats_response e)
                     (s2\<lparr> ghlConfig := \<lparr> ghl_id = data ''ghl_id'',
                                         ghl_secret = data ''ghl_secret'',
                                         refresh_token = data ''refresh_token'' \<rparr>,
                          WHAPI_ACCESS_TOKEN := data ''whapiToken'' \<rparr>))))"

text \<open>
  \<open>setDoc(ref, fields, { merge: true })\<close>: the listed fields are written over the
  document, its other fields stay; a missing document is created.
\<close>

definition merge_doc :: "document option \<Rightarrow> (string \<times> string) list \<Rightarrow> document" where
  "merge_doc d kvs = (case d of None \<Rightarrow> map_of kvs | Some old \<Rightarrow> old ++ map_of kvs)"

definition setDoc_merge :: "string \<Rightarrow> (string \<times> string) list \<Rightarrow> state \<Rightarrow> state" where
  "setDoc_merge docId kvs s =
     s\<lparr> firestore := (firestore s)(docId \<mapsto> merge_doc (firestore s docId) kvs) \<rparr>"

text \<open>
  \<open>ghlToken\<close>. Every throw inside its \<open>try\<close> reaches the \<open>catch\<close>, which logs and
  throws the same error on.
\<close>

definition token_fields :: "token_data \<Rightarrow> (string \<times> string) list" where
  "token_fields d =
     [(''access_token'', new_access_token d), (''refresh_token'', new_refresh_token d)]"

definition ghlToken_catch :: "js_error \<Rightarrow> state \<Rightarrow> completion \<times> state" where
  "ghlToken_catch err s = (Threw err, console_error ''Error generating and updating token:'' s)"

definition ghlToken :: "env \<Rightarrow> state \<Rightarrow> completion \<times> state" where
  "ghlToken e s =
     (case fetchConfigFromDatabase e s of
        (Threw err, s1) \<Rightarrow> ghlToken_catch err s1
      | (Returned, s1) \<Rightarrow>
          (let s2 = request (Post_oauth_token (ghl_id (ghlConfig s1)) (ghl_secret (ghlConfig s1))
                               (refresh_token (ghlConfig s1))) s1
           in case oauth_response e of
                Axios_rejected err \<Rightarrow> ghlToken_catch err s2
              | Axios_response None \<Rightarrow> ghlToken_catch (Error ''TypeError'') s2
              | Axios_response (Some newTokenData) \<Rightarrow>
                  (let s3 = emit (Firestore_set ''014'' (token_fields newTokenData)) s2
                   in case setDoc_error e of
                        Some err \<Rightarrow> ghlToken_catch err s3
                      | None \<Rightarrow>
                          (case searchConversation (contacts_error e) (new_access_token newTokenData)
                                  (setDoc_merge ''014'' (token_fields newTokenData) s3) of
                             (Threw err, s4) \<Rightarrow> ghlToken_catch err s4
                           | (Returned, s4) \<Rightarrow> (Returned, s4)))))"

section \<open>Reading a trace\<close>

fun is_chats_request :: "event \<Rightarrow> bool" where
  "is_chats_request (Request (Get_chats t)) = True"
| "is_chats_request e = False"

fun is_messages_request :: "event \<Rightarrow> bool" where
  "is_messages_request (Request (Get_messages c t)) = True"
| "is_messages_request e = False"

fun is_contacts_request :: "event \<Rightarrow> bool" where
  "is_contacts_request (Request (Get_contacts t)) = True"
| "is_contacts_request e = False"

fun is_request :: "event \<Rightarrow> bool" where
  "is_request (Request r) = True"
| "is_request e = False"

definition attempts :: "(event \<Rightarrow> bool) \<Rightarrow> event list \<Rightarrow> nat" where
  "attempts p t = length (filter p t)"

text \<open>The events a run adds to the trace it started with.\<close>

definition added :: "state \<Rightarrow> state \<Rightarrow> event list" where
  "added s s' = drop (length (trace s)) (trace s')"

text \<open>
  The flag is written false only once the last attempt of the trace is over: no write of
  false has a request after it.
\<close>

fun has_request :: "event list \<Rightarrow> bool" where
  "has_request [] = False"
| "has_request (e # es) = (is_request e \<or> has_request es)"

fun false_only_after_exit :: "event list \<Rightarrow> bool" where
  "false_only_after_exit [] = True"
| "false_only_after_exit (Set_loading b # es) =
     ((b \<or> \<not> has_request es) \<and> false_only_after_exit es)"
| "false_only_after_exit (e # es) = false_only_after_exit es"

text \<open>The events of one failed pass through a retry loop, for request \<open>r\<close>.\<close>

definition failed_attempt :: "request \<Rightarrow> string \<Rightarrow> nat \<Rightarrow> event list" where
  "failed_attempt r msg d = [Set_loading True, Request r, Console_error msg, Delay d, Set_loading False]"

fun is_console_error :: "event \<Rightarrow> bool" where
  "is_console_error (Console_error m) = True"
| "is_console_error e = False"


fun is_oauth_request :: "event \<Rightarrow> bool" where
  "is_oauth_request (Request (Post_oauth_token i c t)) = True"
| "is_oauth_request e = False"

fun is_firestore_get :: "event \<Rightarrow> bool" where
  "is_firestore_get (Firestore_get k) = True"
| "is_firestore_get e = False"

fun is_firestore_set :: "event \<Rightarrow> bool" where
  "is_firestore_set (Firestore_set k kvs) = True"
| "is_firestore_set e = False"




text \<open>Field \<open>f\<close> of document \<open>k\<close> in a store, if both are there.\<close>

definition field_of :: "(string \<rightharpoonup> document) \<Rightarrow> string \<Rightarrow> string \<Rightarrow> string option" where
  "field_of db k f = (case db k of None \<Rightarrow> None | Some d \<Rightarrow> d f)"

section \<open>The loading flag during the waits\<close>

text \<open>
  A wait is what the code awaits, a request it has sent or a timer it has started, paired
  with the value the loading flag has while that wait lasts. This is its value in the
  state the awaiting function finds when it goes on: when a function reaches an
  \<open>await\<close>, the code that called it without awaiting it still runs on to its own next
  \<open>await\<close> or to its end, and from then on the state stays as it is until the wait
  is over.
\<close>

type_synonym wait = "event \<times> bool"

text \<open>
  The \<open>while\<close> loop of \<open>fetchMessagesWithRetry\<close> once more, step for step as in
  \<open>fetchMessagesWithRetry_loop\<close>, giving with the final state the waits of the run: in
  each pass the request, and after a failure the retry timer.
\<close>

function fetchMessagesWithRetry_observed ::
  "nat \<Rightarrow> nat \<Rightarrow> (nat \<Rightarrow> remote_message list fetch_result) \<Rightarrow> string \<Rightarrow> nat \<Rightarrow> state
    \<Rightarrow> state \<times> wait list"
where
  "fetchMessagesWithRetry_observed maxRetries retryDelay net cid retryCount s =
     (if retryCount < maxRetries then
        (let s1 = request (Get_messages cid (WHAPI_ACCESS_TOKEN s)) (setLoading True s);
             w1 = (Request (Get_messages cid (WHAPI_ACCESS_TOKEN s)), isLoading s1)
         in case fetch_json (net retryCount) of
              Some ms \<Rightarrow> (setLoading False (setMessages (map to_message ms) s1), [w1])
            | None \<Rightarrow>
                (let s2 = delay retryDelay (console_error ''Failed to fetch messages:'' s1);
                     w2 = (Delay retryDelay, isLoading s2);
                     r = fetchMessagesWithRetry_observed maxRetries retryDelay net cid
                           (retryCount + 1) (setLoading False s2)
                 in (fst r, w1 # w2 # snd r)))
      else
        (console_error (''Failed to fetch messages after '' @ show_nat maxRetries @ '' retries'') s,
         []))"
  by pat_completeness auto
termination
  by (relation "measure (\<lambda>(maxRetries, retryDelay, net, cid, retryCount, s). maxRetries - retryCount)")
     auto

declare fetchMessagesWithRetry_observed.simps [simp del]

text \<open>
  The message fetcher that \<open>handleRefreshClick\<close> starts without awaiting it: its entry
  check, first \<open>setLoading(true)\<close> and first request are \<open>fetchMessagesWithRetry_begin\<close>,
  run inside the chat fetcher. This is how it goes on from its first \<open>await\<close>, in the
  state \<open>s\<close> that the chat fetcher has left by then: the rest of the first pass (with
  \<open>retryCount = 0\<close>), then the loop from \<open>retryCount = 1\<close>.
\<close>

definition fetchMessagesWithRetry_started ::
  "nat \<Rightarrow> nat \<Rightarrow> (nat \<Rightarrow> remote_message list fetch_result) \<Rightarrow> string \<Rightarrow> state
    \<Rightarrow> state \<times> wait list"
where
  "fetchMessagesWithRetry_started maxRetries retryDelay net cid s =
     (let w1 = (Request (Get_messages cid (WHAPI_ACCESS_TOKEN s)), isLoading s)
      in case fetch_json (net 0) of
           Some ms \<Rightarrow> (setLoading False (setMessages (map to_message ms) s), [w1])
         | None \<Rightarrow>
             (let s2 = delay retryDelay (console_error ''Failed to fetch messages:'' s);
                  w2 = (Delay retryDelay, isLoading s2);
                  r = fetchMessagesWithRetry_observed maxRetries retryDelay net cid 1
                        (setLoading False s2)
              in (fst r, w1 # w2 # snd r)))"

text \<open>Nothing goes on where the entry check had returned.\<close>

definition fetchMessagesWithRetry_rest ::
  "nat \<Rightarrow> nat \<Rightarrow> (nat \<Rightarrow> remote_message list fetch_result) \<Rightarrow> state \<Rightarrow> state \<times> wait list"
where
  "fetchMessagesWithRetry_rest maxRetries retryDelay net s =
     (case selectedChatId s of
        None \<Rightarrow> (s, [])
      | Some cid \<Rightarrow>
          if cid = [] then (s, [])
          else fetchMessagesWithRetry_started maxRetries retryDelay net cid s)"

text \<open>
  \<open>fetchChatsWithRetry\<close> of \<open>handleRefreshClick\<close> once more, step for step as in
  \<open>fetchChatsWithRetry_loop\<close>, with its waits; after the successful attempt, once the chat
  fetcher has run its \<open>finally\<close> and returned, the message fetcher it started goes on.
\<close>

function fetchChatsWithRetry_observed ::
  "nat \<Rightarrow> nat \<Rightarrow> (nat \<Rightarrow> chat list fetch_result) \<Rightarrow> (nat \<Rightarrow> remote_message list fetch_result)
    \<Rightarrow> nat \<Rightarrow> state \<Rightarrow> state \<times> wait list"
where
  "fetchChatsWithRetry_observed maxRetries retryDelay net mnet retryCount s =
     (if retryCount < maxRetries then
        (let s1 = request (Get_chats (WHAPI_ACCESS_TOKEN s)) (setLoading True s);
             w1 = (Request (Get_chats (WHAPI_ACCESS_TOKEN s)), isLoading s1)
         in case fetch_json (net retryCount) of
              Some cs \<Rightarrow>
                (let r = fetchMessagesWithRetry_rest maxRetries retryDelay mnet
                           (setLoading False
                             (fetchMessagesWithRetry_begin (setChats (map (\<lambda>chat. chat) cs) s1)))
                 in (fst r, w1 # snd r))
            | None \<Rightarrow>
                (let s2 = delay retryDelay (console_error ''Failed to fetch chats:'' s1);
                     w2 = (Delay retryDelay, isLoading s2);
                     r = fetchChatsWithRetry_observed maxRetries retryDelay net mnet
                           (retryCount + 1) (setLoading False s2)
                 in (fst r, w1 # w2 # snd r)))
      else
        (console_error (''Failed to fetch chats after '' @ show_nat maxRetries @ '' retries'') s,
         []))"
  by pat_completeness auto
termination
  by (relation "measure (\<lambda>(maxRetries, retryDelay, net, mnet, retryCount, s). maxRetries - retryCount)")
     auto

declare fetchChatsWithRetry_observed.simps [simp del]

section \<open>Scenarios\<close>

text \<open>Concrete data on which the definitions are run.\<close>

definition no_documents :: "string \<rightharpoonup> document" where
  "no_documents = Map.empty"

definition chat_alice :: chat where
  "chat_alice = \<lparr> chat_id = Some ''123'', chat_name = Some ''Alice'', last_message = None \<rparr>"

definition remote_hi :: remote_message where
  "remote_hi = \<lparr> r_id = ''m1'', r_text = Some \<lparr> body = Some ''hi'' \<rparr>, r_from_me = Some False,
                 r_timestamp = Some 1700000000, r_type = Some ''text'', r_image = None \<rparr>"

definition state_chat_open :: state where
  "state_chat_open = setSelectedChatId (Some ''123'') (setChats [chat_alice] (Main_init no_documents))"

definition chat_bob :: chat where
  "chat_bob = \<lparr> chat_id = Some ''456'', chat_name = Some ''Bob'', last_message = None \<rparr>"

definition state_reading :: state where
  "state_reading = setMessages [to_message remote_hi] state_chat_open"

definition state_typing :: state where
  "state_typing = setNewMessage ''hello'' state_reading"

definition state_blank_input :: state where
  "state_blank_input = setNewMessage ''  '' state_reading"




definition doc_beverly :: document where
  "doc_beverly = map_of [(''ghl_id'', ''id-014''), (''ghl_secret'', ''secret-014''),
                         (''refresh_token'', ''R-014''), (''whapiToken'', ''W-014'')]"

definition doc_billert :: document where
  "doc_billert = map_of [(''ghl_id'', ''id-011''), (''ghl_secret'', ''secret-011''),
                         (''refresh_token'', ''R-011''), (''whapiToken'', ''W-011'')]"

definition two_tenants :: "string \<rightharpoonup> document" where
  "two_tenants = map_of [(''014'', doc_beverly), (''011'', doc_billert)]"

definition env_stranger :: env where
  "env_stranger =
     \<lparr> currentUser = Some \<lparr> email = Some ''someone@example.com'' \<rparr>,
       getDoc_error = None,
       chats_response = Axios_response (Some [chat_alice]),
       oauth_response = Axios_response (Some \<lparr> new_access_token = ''A-new'', new_refresh_token = ''R-new'' \<rparr>),
       setDoc_error = None,
       contacts_error = None \<rparr>"

definition env_billert :: env where
  "env_billert =
     \<lparr> currentUser = Some \<lparr> email = Some ''admin@billert.com'' \<rparr>,
       getDoc_error = None,
       chats_response = Axios_response (Some [chat_alice]),
       oauth_response = Axios_response (Some \<lparr> new_access_token = ''A-new'', new_refresh_token = ''R-new'' \<rparr>),
       setDoc_error = None,
       contacts_error = None \<rparr>"

definition env_getDoc_down :: env where
  "env_getDoc_down = env_stranger\<lparr> getDoc_error := Some (Error ''unavailable'') \<rparr>"

definition env_oauth_down :: env where
  "env_oauth_down = env_stranger\<lparr> oauth_response := Axios_rejected (Error ''401'') \<rparr>"

definition env_setDoc_down :: env where
  "env_setDoc_down = env_stranger\<lparr> setDoc_error := Some (Error ''permission-denied'') \<rparr>"

definition env_search_down :: env where
  "env_search_down = env_stranger\<lparr> contacts_error := Some (Error ''Network Error'') \<rparr>"

section \<open>Properties\<close>

subsection \<open>The retry loops on scripted outcomes\<close>

lemmas effect_defs = Let_def emit_def setLoading_def setChats_def setMessages_def setNewMessage_def
  setSelectedIcon_def setSelectedChatId_def request_def delay_def console_error_def

lemma msgs_loop_success:
  "(\<And>i. rc \<le> i \<Longrightarrow> i < rc + k \<Longrightarrow> fetch_json (net i) = None) \<Longrightarrow>
   fetch_json (net (rc + k)) = Some ms \<Longrightarrow> rc + k < N \<Longrightarrow>
   fetchMessagesWithRetry_loop N d net cid rc s =
     s\<lparr> messages := map to_message ms, isLoading := False,
        trace := trace s
          @ concat (replicate k (failed_attempt (Get_messages cid (WHAPI_ACCESS_TOKEN s)) ''Failed to fetch messages:'' d))
          @ [Set_loading True, Request (Get_messages cid (WHAPI_ACCESS_TOKEN s)), Set_loading False] \<rparr>"
proof (induction k arbitrary: rc s)
  case 0
  then show ?case
    by (subst fetchMessagesWithRetry_loop.simps) (simp add: effect_defs)
next
  case (Suc k)
  have f: "fetch_json (net rc) = None" using Suc.prems(1)[of rc] by simp
  have rest: "\<And>i. Suc rc \<le> i \<Longrightarrow> i < Suc rc + k \<Longrightarrow> fetch_json (net i) = None"
    using Suc.prems(1) by simp
  have ok: "fetch_json (net (Suc rc + k)) = Some ms" using Suc.prems(2) by simp
  have lt: "Suc rc + k < N" "rc < N" using Suc.prems(3) by simp_all
  show ?case
    by (subst fetchMessagesWithRetry_loop.simps)
       (simp add: f lt Suc.IH[OF rest ok lt(1)] effect_defs failed_attempt_def)
qed

lemma msgs_loop_exhausted:
  "(\<And>i. rc \<le> i \<Longrightarrow> i < N \<Longrightarrow> fetch_json (net i) = None) \<Longrightarrow>
   fetchMessagesWithRetry_loop N d net cid rc s =
     s\<lparr> isLoading := (if rc < N then False else isLoading s),
        trace := trace s
          @ concat (replicate (N - rc) (failed_attempt (Get_messages cid (WHAPI_ACCESS_TOKEN s)) ''Failed to fetch messages:'' d))
          @ [Console_error (''Failed to fetch messages after '' @ show_nat N @ '' retries'')] \<rparr>"
proof (induction N d net cid rc s rule: fetchMessagesWithRetry_loop.induct)
  case (1 N d net cid rc s)
  show ?case
  proof (cases "rc < N")
    case True
    have f: "fetch_json (net rc) = None" using 1(2)[of rc] True by simp
    have rep: "N - rc = Suc (N - (rc + 1))" using True by simp
    let ?s1 = "request (Get_messages cid (WHAPI_ACCESS_TOKEN s)) (setLoading True s)"
    have IH: "fetchMessagesWithRetry_loop N d net cid (rc + 1)
               (setLoading False (delay d (console_error ''Failed to fetch messages:'' ?s1))) = 
               (setLoading False (delay d (console_error ''Failed to fetch messages:'' ?s1)))
               \<lparr> isLoading := (if rc + 1 < N then False else isLoading (setLoading False (delay d (console_error ''Failed to fetch messages:'' ?s1)))),
        trace := trace (setLoading False (delay d (console_error ''Failed to fetch messages:'' ?s1)))
          @ concat (replicate (N - (rc + 1)) (failed_attempt (Get_messages cid (WHAPI_ACCESS_TOKEN (setLoading False (delay d (console_error ''Failed to fetch messages:'' ?s1))))) ''Failed to fetch messages:'' d))
          @ [Console_error (''Failed to fetch messages after '' @ show_nat N @ '' retries'')] \<rparr>"
      using 1(1)[OF True refl f] 1(2) by simp
    show ?thesis
      apply (subst fetchMessagesWithRetry_loop.simps)
      apply (simp only: True if_True Let_def f option.case IH)
      apply (subst rep)
      apply (simp add: effect_defs failed_attempt_def)
      done
  next
    case False
    then show ?thesis
      by (subst fetchMessagesWithRetry_loop.simps) (simp add: effect_defs)
  qed
qed

lemma chats_loop_success:
  "(\<And>i. rc \<le> i \<Longrightarrow> i < rc + k \<Longrightarrow> fetch_json (net i) = None) \<Longrightarrow>
   fetch_json (net (rc + k)) = Some cs \<Longrightarrow> rc + k < N \<Longrightarrow>
   fetchChatsWithRetry_loop N d net rc s =
     setLoading False (fetchMessagesWithRetry_begin (setChats cs
       (s\<lparr> isLoading := True,
          trace := trace s
            @ concat (replicate k (failed_attempt (Get_chats (WHAPI_ACCESS_TOKEN s)) ''Failed to fetch chats:'' d))
            @ [Set_loading True, Request (Get_chats (WHAPI_ACCESS_TOKEN s))] \<rparr>)))"
proof (induction k arbitrary: rc s)
  case 0
  then show ?case
    by (subst fetchChatsWithRetry_loop.simps) (simp add: effect_defs)
next
  case (Suc k)
  have f: "fetch_json (net rc) = None" using Suc.prems(1)[of rc] by simp
  have rest: "\<And>i. Suc rc \<le> i \<Longrightarrow> i < Suc rc + k \<Longrightarrow> fetch_json (net i) = None"
    using Suc.prems(1) by simp
  have ok: "fetch_json (net (Suc rc + k)) = Some cs" using Suc.prems(2) by simp
  have lt: "Suc rc + k < N" "rc < N" using Suc.prems(3) by simp_all
  show ?case
    by (subst fetchChatsWithRetry_loop.simps)
       (simp add: f lt Suc.IH[OF rest ok lt(1)] effect_defs failed_attempt_def)
qed

lemma chats_loop_exhausted:
  "(\<And>i. rc \<le> i \<Longrightarrow> i < N \<Longrightarrow> fetch_json (net i) = None) \<Longrightarrow>
   fetchChatsWithRetry_loop N d net rc s =
     s\<lparr> isLoading := (if rc < N then False else isLoading s),
        trace := trace s
          @ concat (replicate (N - rc) (failed_attempt (Get_chats (WHAPI_ACCESS_TOKEN s)) ''Failed to fetch chats:'' d))
          @ [Console_error (''Failed to fetch chats after '' @ show_nat N @ '' retries'')] \<rparr>"
proof (induction "N - rc" arbitrary: rc s)
  case 0
  then show ?case
    by (subst fetchChatsWithRetry_loop.simps) (simp add: effect_defs)
next
  case (Suc k)
  have lt: "rc < N" and k: "k = N - Suc rc" and rep: "N - rc = Suc (N - Suc rc)"
    using Suc.hyps(2) by simp_all
  have f: "fetch_json (net rc) = None" using Suc.prems[of rc] lt by simp
  have rest: "\<And>i. Suc rc \<le> i \<Longrightarrow> i < N \<Longrightarrow> fetch_json (net i) = None"
    using Suc.prems by simp
  show ?case
    apply (subst fetchChatsWithRetry_loop.simps)
    apply (subst rep)
    apply (simp add: f lt Suc.hyps(1)[OF k rest] effect_defs failed_attempt_def)
    done
qed

subsection \<open>Counting events\<close>

lemma added_eq: "trace s' = trace s @ es \<Longrightarrow> added s s' = es"
  by (simp add: added_def)

lemma attempts_append: "attempts p (xs @ ys) = attempts p xs + attempts p ys"
  by (simp add: attempts_def)

lemma attempts_repeat: "attempts p (concat (replicate k b)) = k * attempts p b"
  by (induction k) (simp_all add: attempts_def)

lemma begin_trace:
  "\<exists>es. trace (fetchMessagesWithRetry_begin s) = trace s @ es
        \<and> attempts is_chats_request es = 0 \<and> attempts is_console_error es = 0"
  by (auto simp: fetchMessagesWithRetry_begin_def effect_defs attempts_def split: option.splits)

lemma begin_fields:
  "chats (fetchMessagesWithRetry_begin s) = chats s"
  "messages (fetchMessagesWithRetry_begin s) = messages s"
  by (auto simp: fetchMessagesWithRetry_begin_def effect_defs split: option.splits)

subsection \<open>First success after failures\<close>

lemma chats_fetch_first_success:
  assumes "1 \<le> N" "\<And>i. i < N - 1 \<Longrightarrow> fetch_json (net i) = None"
    "fetch_json (net (N - 1)) = Some cs"
  shows "attempts is_chats_request (added s (handleRefreshClick_fetchChatsWithRetry N d net s)) = N"
    "attempts is_console_error (added s (handleRefreshClick_fetchChatsWithRetry N d net s)) = N - 1"
    "chats (handleRefreshClick_fetchChatsWithRetry N d net s) = cs"
    "isLoading (handleRefreshClick_fetchChatsWithRetry N d net s) = False"
proof -
  define pre where "pre = concat (replicate (N - 1)
      (failed_attempt (Get_chats (WHAPI_ACCESS_TOKEN s)) ''Failed to fetch chats:'' d))
      @ [Set_loading True, Request (Get_chats (WHAPI_ACCESS_TOKEN s))]"
  define s1 where "s1 = setChats cs (s\<lparr> isLoading := True, trace := trace s @ pre \<rparr>)"
  have run: "handleRefreshClick_fetchChatsWithRetry N d net s =
      setLoading False (fetchMessagesWithRetry_begin s1)"
    unfolding handleRefreshClick_fetchChatsWithRetry_def s1_def pre_def
    using chats_loop_success[of 0 "N - 1" net cs N d s] assms by simp
  have s1: "trace s1 = trace s @ pre" "chats s1 = cs"
    by (simp_all add: s1_def setChats_def)
  obtain es where es: "trace (fetchMessagesWithRetry_begin s1) = trace s1 @ es"
    "attempts is_chats_request es = 0" "attempts is_console_error es = 0"
    using begin_trace by blast
  have tr: "trace (handleRefreshClick_fetchChatsWithRetry N d net s) =
      trace s @ (pre @ es @ [Set_loading False])"
    by (simp add: run es(1) s1(1) setLoading_def emit_def)
  have pre1: "attempts is_chats_request pre = N"
    using assms(1)
    by (simp add: pre_def attempts_append attempts_repeat)
       (simp add: attempts_def failed_attempt_def)
  have pre2: "attempts is_console_error pre = N - 1"
    by (simp add: pre_def attempts_append attempts_repeat)
       (simp add: attempts_def failed_attempt_def)
  show "attempts is_chats_request (added s (handleRefreshClick_fetchChatsWithRetry N d net s)) = N"
    by (simp add: added_eq[OF tr] attempts_append pre1 es(2)) (simp add: attempts_def)
  show "attempts is_console_error (added s (handleRefreshClick_fetchChatsWithRetry N d net s)) = N - 1"
    by (simp add: added_eq[OF tr] attempts_append pre2 es(3)) (simp add: attempts_def)
  show "chats (handleRefreshClick_fetchChatsWithRetry N d net s) = cs"
    by (simp add: run begin_fields s1(2) setLoading_def emit_def)
  show "isLoading (handleRefreshClick_fetchChatsWithRetry N d net s) = False"
    by (simp add: run setLoading_def emit_def)
qed

lemma fetchMessagesWithRetry_selected:
  "selectedChatId s = Some cid \<Longrightarrow> cid \<noteq> [] \<Longrightarrow>
   fetchMessagesWithRetry N d net s = fetchMessagesWithRetry_loop N d net cid 0 s"
  by (simp add: fetchMessagesWithRetry_def)

lemma selected_cases:
  "\<not> no_chat_selected c \<Longrightarrow> \<exists>cid. c = Some cid \<and> cid \<noteq> []"
  by (cases c) (simp_all add: no_chat_selected_def)

lemma messages_fetch_first_success:
  assumes "1 \<le> N" "\<And>i. i < N - 1 \<Longrightarrow> fetch_json (net i) = None"
    "fetch_json (net (N - 1)) = Some ms" "\<not> no_chat_selected (selectedChatId s)"
  shows "attempts is_messages_request (added s (fetchMessagesWithRetry N d net s)) = N"
    "attempts is_console_error (added s (fetchMessagesWithRetry N d net s)) = N - 1"
    "messages (fetchMessagesWithRetry N d net s) = map to_message ms"
    "isLoading (fetchMessagesWithRetry N d net s) = False"
proof -
  obtain cid where cid: "selectedChatId s = Some cid" "cid \<noteq> []"
    using selected_cases[OF assms(4)] by blast
  have run: "fetchMessagesWithRetry N d net s =
     s\<lparr> messages := map to_message ms, isLoading := False,
        trace := trace s
          @ concat (replicate (N - 1) (failed_attempt (Get_messages cid (WHAPI_ACCESS_TOKEN s)) ''Failed to fetch messages:'' d))
          @ [Set_loading True, Request (Get_messages cid (WHAPI_ACCESS_TOKEN s)), Set_loading False] \<rparr>"
    using msgs_loop_success[of 0 "N - 1" net ms N d cid s] assms(1-3)
    by (simp add: fetchMessagesWithRetry_selected[OF cid])
  have tr: "trace (fetchMessagesWithRetry N d net s) = trace s
          @ (concat (replicate (N - 1) (failed_attempt (Get_messages cid (WHAPI_ACCESS_TOKEN s)) ''Failed to fetch messages:'' d))
          @ [Set_loading True, Request (Get_messages cid (WHAPI_ACCESS_TOKEN s)), Set_loading False])"
    by (simp add: run)
  show "attempts is_messages_request (added s (fetchMessagesWithRetry N d net s)) = N"
    using assms(1)
    by (simp add: added_eq[OF tr] attempts_append attempts_repeat)
       (simp add: attempts_def failed_attempt_def)
  show "attempts is_console_error (added s (fetchMessagesWithRetry N d net s)) = N - 1"
    by (simp add: added_eq[OF tr] attempts_append attempts_repeat)
       (simp add: attempts_def failed_attempt_def)
  show "messages (fetchMessagesWithRetry N d net s) = map to_message ms"
    by (simp add: run)
  show "isLoading (fetchMessagesWithRetry N d net s) = False"
    by (simp add: run)
qed

lemma initial_chats_fetch_success:
  assumes "axios_data r = Some cs"
  shows "attempts is_chats_request (added s (fetchChatsWithRetry r s)) = 1"
    "attempts is_console_error (added s (fetchChatsWithRetry r s)) = 0"
    "chats (fetchChatsWithRetry r s) = cs"
    "isLoading (fetchChatsWithRetry r s) = False"
  using assms by (simp_all add: fetchChatsWithRetry_def effect_defs added_def attempts_def)

text \<open>
  Claim C1. With a retry bound \<open>N \<ge> 1\<close>, when the first \<open>N - 1\<close> attempts fail and
  attempt \<open>N\<close> succeeds, the chat fetcher and the message fetcher (for a selected
  conversation) each send exactly \<open>N\<close> requests, log exactly the \<open>N - 1\<close> failures and
  nothing after the success, and store the mapped response in \<open>chats\<close>, respectively
  \<open>messages\<close>. The fetcher run on first load makes its single attempt and stores the
  response when that attempt succeeds.
\<close>

theorem retry_until_first_success:
  assumes "1 \<le> N"
  shows
    "((\<forall>i<N - 1. fetch_json (cnet i) = None) \<and> fetch_json (cnet (N - 1)) = Some cs \<longrightarrow>
        attempts is_chats_request (added s (handleRefreshClick_fetchChatsWithRetry N d cnet s)) = N
      \<and> attempts is_console_error (added s (handleRefreshClick_fetchChatsWithRetry N d cnet s)) = N - 1
      \<and> chats (handleRefreshClick_fetchChatsWithRetry N d cnet s) = cs
      \<and> isLoading (handleRefreshClick_fetchChatsWithRetry N d cnet s) = False)
   \<and> ((\<forall>i<N - 1. fetch_json (mnet i) = None) \<and> fetch_json (mnet (N - 1)) = Some ms
        \<and> \<not> no_chat_selected (selectedChatId s) \<longrightarrow>
        attempts is_messages_request (added s (fetchMessagesWithRetry N d mnet s)) = N
      \<and> attempts is_console_error (added s (fetchMessagesWithRetry N d mnet s)) = N - 1
      \<and> messages (fetchMessagesWithRetry N d mnet s) = map to_message ms
      \<and> isLoading (fetchMessagesWithRetry N d mnet s) = False)
   \<and> (axios_data r = Some cs \<longrightarrow>
        attempts is_chats_request (added s (fetchChatsWithRetry r s)) = 1
      \<and> attempts is_console_error (added s (fetchChatsWithRetry r s)) = 0
      \<and> chats (fetchChatsWithRetry r s) = cs
      \<and> isLoading (fetchChatsWithRetry r s) = False)"
proof -
  have A: "(\<forall>i<N - 1. fetch_json (cnet i) = None) \<and> fetch_json (cnet (N - 1)) = Some cs \<longrightarrow>
        attempts is_chats_request (added s (handleRefreshClick_fetchChatsWithRetry N d cnet s)) = N
      \<and> attempts is_console_error (added s (handleRefreshClick_fetchChatsWithRetry N d cnet s)) = N - 1
      \<and> chats (handleRefreshClick_fetchChatsWithRetry N d cnet s) = cs
      \<and> isLoading (handleRefreshClick_fetchChatsWithRetry N d cnet s) = False"
  proof
    assume h: "(\<forall>i<N - 1. fetch_json (cnet i) = None) \<and> fetch_json (cnet (N - 1)) = Some cs"
    have h1: "\<And>i. i < N - 1 \<Longrightarrow> fetch_json (cnet i) = None" using h by simp
    have h2: "fetch_json (cnet (N - 1)) = Some cs" using h by simp
    note R = chats_fetch_first_success[where net = cnet and N = N and s = s and d = d, OF assms h1 h2]
    show "attempts is_chats_request (added s (handleRefreshClick_fetchChatsWithRetry N d cnet s)) = N
      \<and> attempts is_console_error (added s (handleRefreshClick_fetchChatsWithRetry N d cnet s)) = N - 1
      \<and> chats (handleRefreshClick_fetchChatsWithRetry N d cnet s) = cs
      \<and> isLoading (handleRefreshClick_fetchChatsWithRetry N d cnet s) = False"
      by (simp only: R simp_thms)
  qed
  have B: "(\<forall>i<N - 1. fetch_json (mnet i) = None) \<and> fetch_json (mnet (N - 1)) = Some ms
        \<and> \<not> no_chat_selected (selectedChatId s) \<longrightarrow>
        attempts is_messages_request (added s (fetchMessagesWithRetry N d mnet s)) = N
      \<and> attempts is_console_error (added s (fetchMessagesWithRetry N d mnet s)) = N - 1
      \<and> messages (fetchMessagesWithRetry N d mnet s) = map to_message ms
      \<and> isLoading (fetchMessagesWithRetry N d mnet s) = False"
  proof
    assume h: "(\<forall>i<N - 1. fetch_json (mnet i) = None) \<and> fetch_json (mnet (N - 1)) = Some ms
        \<and> \<not> no_chat_selected (selectedChatId s)"
    have h1: "\<And>i. i < N - 1 \<Longrightarrow> fetch_json (mnet i) = None" using h by simp
    have h2: "fetch_json (mnet (N - 1)) = Some ms" using h by simp
    have h3: "\<not> no_chat_selected (selectedChatId s)" using h by simp
    note R = messages_fetch_first_success[where net = mnet and N = N and s = s and d = d, OF assms h1 h2 h3]
    show "attempts is_messages_request (added s (fetchMessagesWithRetry N d mnet s)) = N
      \<and> attempts is_console_error (added s (fetchMessagesWithRetry N d mnet s)) = N - 1
      \<and> messages (fetchMessagesWithRetry N d mnet s) = map to_message ms
      \<and> isLoading (fetchMessagesWithRetry N d mnet s) = False"
      by (simp only: R simp_thms)
  qed
  have C: "axios_data r = Some cs \<longrightarrow>
        attempts is_chats_request (added s (fetchChatsWithRetry r s)) = 1
      \<and> attempts is_console_error (added s (fetchChatsWithRetry r s)) = 0
      \<and> chats (fetchChatsWithRetry r s) = cs
      \<and> isLoading (fetchChatsWithRetry r s) = False"
  proof
    assume h: "axios_data r = Some cs"
    note R = initial_chats_fetch_success[OF h, where s = s]
    show "attempts is_chats_request (added s (fetchChatsWithRetry r s)) = 1
      \<and> attempts is_console_error (added s (fetchChatsWithRetry r s)) = 0
      \<and> chats (fetchChatsWithRetry r s) = cs
      \<and> isLoading (fetchChatsWithRetry r s) = False"
      by (simp only: R simp_thms)
  qed
  show ?thesis by (rule conjI[OF A conjI[OF B C]])
qed

lemma script_fail2:
  "\<forall>i<(3::nat) - 1. fetch_json (script [Fetch_rejected, Fetch_response False None, r] i) = None"
  by (auto simp: script_def less_Suc_eq numeral_2_eq_2 numeral_3_eq_3)

theorem retry_until_first_success_witness:
  "attempts is_chats_request (added state_chat_open
      (handleRefreshClick_fetchChatsWithRetry 3 1000
         (script [Fetch_rejected, Fetch_response False None, Fetch_response True (Some [chat_alice])])
         state_chat_open)) = 3
   \<and> chats (handleRefreshClick_fetchChatsWithRetry 3 1000
         (script [Fetch_rejected, Fetch_response False None, Fetch_response True (Some [chat_alice])])
         state_chat_open) = [chat_alice]
   \<and> attempts is_messages_request (added state_chat_open
      (fetchMessagesWithRetry 3 1000
         (script [Fetch_rejected, Fetch_response False None, Fetch_response True (Some [remote_hi])])
         state_chat_open)) = 3
   \<and> messages (fetchMessagesWithRetry 3 1000
         (script [Fetch_rejected, Fetch_response False None, Fetch_response True (Some [remote_hi])])
         state_chat_open) = [to_message remote_hi]
   \<and> chats (fetchChatsWithRetry (Axios_response (Some [chat_alice])) state_chat_open) = [chat_alice]"
proof -
  have N: "1 \<le> (3::nat)" by simp
  have c: "fetch_json (script [Fetch_rejected, Fetch_response False None,
              Fetch_response True (Some [chat_alice])] (3 - 1)) = Some [chat_alice]"
    by (simp add: script_def)
  have m: "fetch_json (script [Fetch_rejected, Fetch_response False None,
              Fetch_response True (Some [remote_hi])] (3 - 1)) = Some [remote_hi]"
    by (simp add: script_def)
  have sel: "\<not> no_chat_selected (selectedChatId state_chat_open)"
    by (simp add: state_chat_open_def no_chat_selected_def setSelectedChatId_def)
  have a: "axios_data (Axios_response (Some [chat_alice])) = Some [chat_alice]" by simp
  note T = retry_until_first_success[OF N,
        where cnet = "script [Fetch_rejected, Fetch_response False None, Fetch_response True (Some [chat_alice])]"
          and mnet = "script [Fetch_rejected, Fetch_response False None, Fetch_response True (Some [remote_hi])]"
          and cs = "[chat_alice]" and ms = "[remote_hi]" and s = state_chat_open and d = 1000
          and r = "Axios_response (Some [chat_alice])"]
  note T1 = T[THEN conjunct1, THEN mp, OF conjI[OF script_fail2 c]]
  note T2 = T[THEN conjunct2, THEN conjunct1, THEN mp, OF conjI[OF script_fail2 conjI[OF m sel]]]
  note T3 = T[THEN conjunct2, THEN conjunct2, THEN mp, OF a]
  show ?thesis
    using T1 T2 T3 by simp
qed

subsection \<open>Every attempt fails\<close>

lemma chats_fetch_exhausted:
  assumes "\<And>i. i < N \<Longrightarrow> fetch_json (net i) = None"
  shows "added s (handleRefreshClick_fetchChatsWithRetry N d net s) =
      concat (replicate N (failed_attempt (Get_chats (WHAPI_ACCESS_TOKEN s)) ''Failed to fetch chats:'' d))
      @ [Console_error (''Failed to fetch chats after '' @ show_nat N @ '' retries'')]"
    "attempts is_chats_request (added s (handleRefreshClick_fetchChatsWithRetry N d net s)) = N"
    "chats (handleRefreshClick_fetchChatsWithRetry N d net s) = chats s"
    "messages (handleRefreshClick_fetchChatsWithRetry N d net s) = messages s"
proof -
  have run: "handleRefreshClick_fetchChatsWithRetry N d net s =
     s\<lparr> isLoading := (if 0 < N then False else isLoading s),
        trace := trace s
          @ concat (replicate N (failed_attempt (Get_chats (WHAPI_ACCESS_TOKEN s)) ''Failed to fetch chats:'' d))
          @ [Console_error (''Failed to fetch chats after '' @ show_nat N @ '' retries'')] \<rparr>"
    unfolding handleRefreshClick_fetchChatsWithRetry_def
    using chats_loop_exhausted[of 0 N net d s] assms by simp
  show a: "added s (handleRefreshClick_fetchChatsWithRetry N d net s) =
      concat (replicate N (failed_attempt (Get_chats (WHAPI_ACCESS_TOKEN s)) ''Failed to fetch chats:'' d))
      @ [Console_error (''Failed to fetch chats after '' @ show_nat N @ '' retries'')]"
    by (simp add: run added_def)
  show "attempts is_chats_request (added s (handleRefreshClick_fetchChatsWithRetry N d net s)) = N"
    by (simp only: a attempts_append attempts_repeat) (simp add: attempts_def failed_attempt_def)
  show "chats (handleRefreshClick_fetchChatsWithRetry N d net s) = chats s"
    by (simp add: run)
  show "messages (handleRefreshClick_fetchChatsWithRetry N d net s) = messages s"
    by (simp add: run)
qed

lemma messages_fetch_exhausted:
  assumes "\<And>i. i < N \<Longrightarrow> fetch_json (net i) = None"
    and "selectedChatId s = Some cid" and "cid \<noteq> []"
  shows "added s (fetchMessagesWithRetry N d net s) =
      concat (replicate N (failed_attempt (Get_messages cid (WHAPI_ACCESS_TOKEN s)) ''Failed to fetch messages:'' d))
      @ [Console_error (''Failed to fetch messages after '' @ show_nat N @ '' retries'')]"
    "attempts is_messages_request (added s (fetchMessagesWithRetry N d net s)) = N"
    "chats (fetchMessagesWithRetry N d net s) = chats s"
    "messages (fetchMessagesWithRetry N d net s) = messages s"
proof -
  have run: "fetchMessagesWithRetry N d net s =
     s\<lparr> isLoading := (if 0 < N then False else isLoading s),
        trace := trace s
          @ concat (replicate N (failed_attempt (Get_messages cid (WHAPI_ACCESS_TOKEN s)) ''Failed to fetch messages:'' d))
          @ [Console_error (''Failed to fetch messages after '' @ show_nat N @ '' retries'')] \<rparr>"
    using msgs_loop_exhausted[of 0 N net d cid s] assms(1)
    by (simp add: fetchMessagesWithRetry_selected[OF assms(2,3)])
  show a: "added s (fetchMessagesWithRetry N d net s) =
      concat (replicate N (failed_attempt (Get_messages cid (WHAPI_ACCESS_TOKEN s)) ''Failed to fetch messages:'' d))
      @ [Console_error (''Failed to fetch messages after '' @ show_nat N @ '' retries'')]"
    by (simp add: run added_def)
  show "attempts is_messages_request (added s (fetchMessagesWithRetry N d net s)) = N"
    by (simp only: a attempts_append attempts_repeat) (simp add: attempts_def failed_attempt_def)
  show "chats (fetchMessagesWithRetry N d net s) = chats s"
    by (simp add: run)
  show "messages (fetchMessagesWithRetry N d net s) = messages s"
    by (simp add: run)
qed

text \<open>
  Claim C2. For every retry bound \<open>N\<close>, when every attempt fails, the chat fetcher and the
  message fetcher (for a selected conversation) each make exactly \<open>N\<close> attempts, each
  followed by its log entry and its wait; then the failure is reported by one more
  \<open>console.error\<close>, and \<open>chats\<close> and \<open>messages\<close> are what they were.
\<close>

theorem retry_exhausted_leaves_state:
  "((\<forall>i<N. fetch_json (cnet i) = None) \<longrightarrow>
      added s (handleRefreshClick_fetchChatsWithRetry N d cnet s) =
        concat (replicate N (failed_attempt (Get_chats (WHAPI_ACCESS_TOKEN s)) ''Failed to fetch chats:'' d))
        @ [Console_error (''Failed to fetch chats after '' @ show_nat N @ '' retries'')]
    \<and> attempts is_chats_request (added s (handleRefreshClick_fetchChatsWithRetry N d cnet s)) = N
    \<and> chats (handleRefreshClick_fetchChatsWithRetry N d cnet s) = chats s
    \<and> messages (handleRefreshClick_fetchChatsWithRetry N d cnet s) = messages s)
   \<and> ((\<forall>i<N. fetch_json (mnet i) = None) \<and> selectedChatId s = Some cid \<and> cid \<noteq> [] \<longrightarrow>
      added s (fetchMessagesWithRetry N d mnet s) =
        concat (replicate N (failed_attempt (Get_messages cid (WHAPI_ACCESS_TOKEN s)) ''Failed to fetch messages:'' d))
        @ [Console_error (''Failed to fetch messages after '' @ show_nat N @ '' retries'')]
    \<and> attempts is_messages_request (added s (fetchMessagesWithRetry N d mnet s)) = N
    \<and> chats (fetchMessagesWithRetry N d mnet s) = chats s
    \<and> messages (fetchMessagesWithRetry N d mnet s) = messages s)"
proof (intro conjI impI)
  assume h: "\<forall>i<N. fetch_json (cnet i) = None"
  have h1: "\<And>i. i < N \<Longrightarrow> fetch_json (cnet i) = None" using h by simp
  note R = chats_fetch_exhausted[where net = cnet and N = N and s = s and d = d, OF h1]
  show "added s (handleRefreshClick_fetchChatsWithRetry N d cnet s) =
        concat (replicate N (failed_attempt (Get_chats (WHAPI_ACCESS_TOKEN s)) ''Failed to fetch chats:'' d))
        @ [Console_error (''Failed to fetch chats after '' @ show_nat N @ '' retries'')]"
    by (rule R(1))
  show "attempts is_chats_request (added s (handleRefreshClick_fetchChatsWithRetry N d cnet s)) = N"
    by (rule R(2))
  show "chats (handleRefreshClick_fetchChatsWithRetry N d cnet s) = chats s"
    by (rule R(3))
  show "messages (handleRefreshClick_fetchChatsWithRetry N d cnet s) = messages s"
    by (rule R(4))
next
  assume h: "(\<forall>i<N. fetch_json (mnet i) = None) \<and> selectedChatId s = Some cid \<and> cid \<noteq> []"
  have h1: "\<And>i. i < N \<Longrightarrow> fetch_json (mnet i) = None" using h by simp
  have h2: "selectedChatId s = Some cid" "cid \<noteq> []" using h by simp_all
  note R = messages_fetch_exhausted[where net = mnet and N = N and s = s and d = d, OF h1 h2]
  show "added s (fetchMessagesWithRetry N d mnet s) =
        concat (replicate N (failed_attempt (Get_messages cid (WHAPI_ACCESS_TOKEN s)) ''Failed to fetch messages:'' d))
        @ [Console_error (''Failed to fetch messages after '' @ show_nat N @ '' retries'')]"
    by (rule R(1))
  show "attempts is_messages_request (added s (fetchMessagesWithRetry N d mnet s)) = N"
    by (rule R(2))
  show "chats (fetchMessagesWithRetry N d mnet s) = chats s"
    by (rule R(3))
  show "messages (fetchMessagesWithRetry N d mnet s) = messages s"
    by (rule R(4))
qed

lemma script_empty: "\<forall>i<N. fetch_json (script [] i) = None"
  by (simp add: script_def)

lemma state_chat_open_selected:
  "selectedChatId state_chat_open = Some ''123'' \<and> ''123'' \<noteq> []"
  by (simp add: state_chat_open_def setSelectedChatId_def)

theorem retry_exhausted_leaves_state_witness:
  "attempts is_chats_request
      (added state_chat_open (handleRefreshClick_fetchChatsWithRetry 10 1000 (script []) state_chat_open)) = 10
   \<and> chats (handleRefreshClick_fetchChatsWithRetry 10 1000 (script []) state_chat_open) = chats state_chat_open
   \<and> messages (handleRefreshClick_fetchChatsWithRetry 10 1000 (script []) state_chat_open) = messages state_chat_open
   \<and> attempts is_messages_request
      (added state_chat_open (fetchMessagesWithRetry 10 1000 (script []) state_chat_open)) = 10
   \<and> chats (fetchMessagesWithRetry 10 1000 (script []) state_chat_open) = chats state_chat_open
   \<and> messages (fetchMessagesWithRetry 10 1000 (script []) state_chat_open) = messages state_chat_open"
proof -
  note T = retry_exhausted_leaves_state[where N = 10 and cnet = "script []" and mnet = "script []"
      and s = state_chat_open and d = 1000 and cid = "''123''"]
  note T1 = T[THEN conjunct1, THEN mp, OF script_empty]
  note T2 = T[THEN conjunct2, THEN mp, OF conjI[OF script_empty state_chat_open_selected]]
  note c = T1[THEN conjunct2] T2[THEN conjunct2]
  note facts = c[THEN conjunct1] c[THEN conjunct2, THEN conjunct1] c[THEN conjunct2, THEN conjunct2]
  show ?thesis
    by (simp only: facts simp_thms)
qed

subsection \<open>The loading flag\<close>







lemma msgs_started_alone:
  "0 < N \<Longrightarrow> fetchMessagesWithRetry_observed N d net cid 0 s =
     fetchMessagesWithRetry_started N d net cid
       (request (Get_messages cid (WHAPI_ACCESS_TOKEN s)) (setLoading True s))"
  by (subst fetchMessagesWithRetry_observed.simps)
     (simp add: fetchMessagesWithRetry_started_def Let_def effect_defs split: option.splits)














lemma refresh_click_waits:
  "snd (fetchChatsWithRetry_observed 10 1000
        (script [Fetch_response True (Some [chat_alice])])
        (script [Fetch_response True (Some [remote_hi])]) 0 state_chat_open) =
     [(Request (Get_chats (Some '''')), True), (Request (Get_messages ''123'' (Some '''')), False)]"
  by (simp add: fetchChatsWithRetry_observed.simps fetchMessagesWithRetry_rest_def
      fetchMessagesWithRetry_started_def fetchMessagesWithRetry_begin_def script_def effect_defs
      state_chat_open_def Main_init_def)

lemma refresh_click_trace:
  "added state_chat_open
      (handleRefreshClick (script [Fetch_response True (Some [chat_alice])]) state_chat_open) =
     [Set_loading True, Request (Get_chats (Some '''')),
      Set_loading True, Request (Get_messages ''123'' (Some '''')), Set_loading False]"
  by (simp add: handleRefreshClick_def handleRefreshClick_fetchChatsWithRetry_def
      fetchChatsWithRetry_loop.simps fetchMessagesWithRetry_begin_def script_def added_def
      effect_defs state_chat_open_def Main_init_def)

text \<open>
  One failed attempt and then a successful one: the flag is written false before the
  second request goes out.
\<close>

lemma loading_written_off_between_attempts:
  "\<not> false_only_after_exit
      (added state_chat_open
        (handleWhatsappClick ''ws'' (script [Fetch_rejected, Fetch_response True (Some [remote_hi])])
           state_chat_open))"
  by (simp add: handleWhatsappClick_def fetchMessagesWithRetry_def
      fetchMessagesWithRetry_loop.simps script_def added_def effect_defs
      state_chat_open_def Main_init_def)

lemma whatsapp_retry_trace:
  "added state_chat_open
        (handleWhatsappClick ''ws'' (script [Fetch_rejected, Fetch_response True (Some [remote_hi])])
           state_chat_open) =
     [Set_loading True, Request (Get_messages ''123'' (Some '''')),
      Console_error ''Failed to fetch messages:'', Delay 1, Set_loading False,
      Set_loading True, Request (Get_messages ''123'' (Some '''')), Set_loading False]"
  by (simp add: handleWhatsappClick_def fetchMessagesWithRetry_def
      fetchMessagesWithRetry_loop.simps script_def added_def effect_defs
      state_chat_open_def Main_init_def)

subsection \<open>Changing the selected conversation\<close>

text \<open>
  Claim C6, as the code has it. After a click on another conversation, while the effect's
  request for its messages is in flight the loading flag is true and the message list is
  still the one shown before; a successful response replaces it with the mapped messages,
  a failed one leaves it, and either way the flag ends false.
\<close>

theorem selection_change_keeps_list_until_response:
  assumes "chat_id c = Some cid" and "cid \<noteq> []"
  shows "selectedChatId (select_chat c s) = Some cid
     \<and> isLoading (useEffect_fetchMessagesWithRetry_pending cid (select_chat c s))
     \<and> messages (useEffect_fetchMessagesWithRetry_pending cid (select_chat c s)) = messages s
     \<and> added s (useEffect_fetchMessagesWithRetry_pending cid (select_chat c s))
          = [Set_loading True, Request (Get_messages cid (WHAPI_ACCESS_TOKEN s))]
     \<and> messages (useEffect_fetchMessagesWithRetry response (select_chat c s))
          = (case axios_data response of Some ms \<Rightarrow> map to_message ms | None \<Rightarrow> messages s)
     \<and> \<not> isLoading (useEffect_fetchMessagesWithRetry response (select_chat c s))"
  using assms
  by (cases "axios_data response")
     (simp_all add: select_chat_def useEffect_fetchMessagesWithRetry_def
        useEffect_fetchMessagesWithRetry_pending_def effect_defs added_def)

theorem selection_change_keeps_list_until_response_witness:
  "selectedChatId (select_chat chat_bob state_reading) = Some ''456''
     \<and> isLoading (useEffect_fetchMessagesWithRetry_pending ''456'' (select_chat chat_bob state_reading))
     \<and> messages (useEffect_fetchMessagesWithRetry_pending ''456'' (select_chat chat_bob state_reading))
          = messages state_reading
     \<and> messages (useEffect_fetchMessagesWithRetry (Axios_response (Some [])) (select_chat chat_bob state_reading))
          = []"
proof -
  have c: "chat_id chat_bob = Some ''456''" by (simp add: chat_bob_def)
  have n: "''456'' \<noteq> []" by simp
  note T = selection_change_keeps_list_until_response[OF c n, where s = state_reading
      and response = "Axios_response (Some [])"]
  show ?thesis
    using T by simp
qed

theorem selection_change_clears_list_counterexample:
  "messages (useEffect_fetchMessagesWithRetry_pending ''456'' (select_chat chat_bob state_reading))
     \<noteq> []"
  by (simp add: useEffect_fetchMessagesWithRetry_pending_def select_chat_def state_reading_def
      effect_defs)

subsection \<open>Sending a message\<close>

lemma dropWhile_all_iff:
  "(\<forall>x\<in>set (dropWhile P xs). P x) \<longleftrightarrow> (\<forall>x\<in>set xs. P x)"
proof
  assume a: "\<forall>x\<in>set (dropWhile P xs). P x"
  have "dropWhile P xs = []"
  proof (rule ccontr)
    assume n: "dropWhile P xs \<noteq> []"
    then have "\<not> P (hd (dropWhile P xs))" by (rule hd_dropWhile)
    moreover have "hd (dropWhile P xs) \<in> set (dropWhile P xs)" using n by simp
    ultimately show False using a by blast
  qed
  then show "\<forall>x\<in>set xs. P x" by (simp add: dropWhile_eq_Nil_conv)
next
  assume "\<forall>x\<in>set xs. P x"
  then show "\<forall>x\<in>set (dropWhile P xs). P x" by (meson set_dropWhileD)
qed

lemma trim_empty_iff: "trim t = [] \<longleftrightarrow> list_all is_whitespace t"
  by (simp add: trim_def dropWhile_eq_Nil_conv dropWhile_all_iff list_all_iff)

text \<open>
  Claim C7. With text that is not blank after trimming, a selected conversation and a
  successful send, \<open>handleSendMessage\<close> sends one request, appends one outbound message
  whose body is the text sent, puts that message in \<open>last_message\<close> of every chat entry
  with the selected id and leaves the other entries as they are, and empties the input.
\<close>

theorem send_appends_message_and_updates_preview:
  assumes "trim (newMessage s) \<noteq> []" and "selectedChatId s = Some cid" and "cid \<noteq> []"
    and "fetch_json response = Some messageId"
  shows "messages (handleSendMessage response s) = messages s @ [newMsg messageId (newMessage s)]
     \<and> msg_text (newMsg messageId (newMessage s)) = Some \<lparr> body = Some (newMessage s) \<rparr>
     \<and> from_me (newMsg messageId (newMessage s)) = Some True
     \<and> length (chats (handleSendMessage response s)) = length (chats s)
     \<and> (\<forall>i<length (chats s).
          chats (handleSendMessage response s) ! i =
            (if chat_id (chats s ! i) = Some cid
             then (chats s ! i)\<lparr> last_message := Some (newMsg messageId (newMessage s)) \<rparr>
             else chats s ! i))
     \<and> newMessage (handleSendMessage response s) = ''''
     \<and> added s (handleSendMessage response s)
          = [Request (Post_send cid (newMessage s) (WHAPI_ACCESS_TOKEN s))]"
  using assms
  by (simp add: handleSendMessage_def effect_defs added_def newMsg_def)

lemma trim_hello: "trim ''hello'' \<noteq> []"
  by (simp add: trim_def is_whitespace_def)

theorem send_appends_message_and_updates_preview_witness:
  "messages (handleSendMessage (Fetch_response True (Some ''m2'')) state_typing)
      = [to_message remote_hi, newMsg ''m2'' ''hello'']
   \<and> chats (handleSendMessage (Fetch_response True (Some ''m2'')) state_typing)
      = [chat_alice\<lparr> last_message := Some (newMsg ''m2'' ''hello'') \<rparr>]
   \<and> newMessage (handleSendMessage (Fetch_response True (Some ''m2'')) state_typing) = ''''"
proof -
  have t: "trim (newMessage state_typing) \<noteq> []"
    using trim_hello by (simp add: state_typing_def setNewMessage_def)
  have c: "selectedChatId state_typing = Some ''123''"
    by (simp add: state_typing_def state_reading_def state_chat_open_def effect_defs)
  have n: "''123'' \<noteq> []" by simp
  have r: "fetch_json (Fetch_response True (Some ''m2'')) = Some ''m2''" by simp
  have m: "messages state_typing = [to_message remote_hi]" "newMessage state_typing = ''hello''"
    "chats state_typing = [chat_alice]"
    by (simp_all add: state_typing_def state_reading_def state_chat_open_def effect_defs)
  have a: "chat_id chat_alice = Some ''123''" by (simp add: chat_alice_def)
  note T = send_appends_message_and_updates_preview[OF t c n r]
  have l: "chats (handleSendMessage (Fetch_response True (Some ''m2'')) state_typing)
      = [chat_alice\<lparr> last_message := Some (newMsg ''m2'' ''hello'') \<rparr>]"
    using T[THEN conjunct2, THEN conjunct2, THEN conjunct2, THEN conjunct1]
      T[THEN conjunct2, THEN conjunct2, THEN conjunct2, THEN conjunct2, THEN conjunct1]
    by (simp add: m a list_eq_iff_nth_eq)
  show ?thesis
    using T[THEN conjunct1] l
      T[THEN conjunct2, THEN conjunct2, THEN conjunct2, THEN conjunct2, THEN conjunct2, THEN conjunct1]
    by (simp add: m)
qed

text \<open>
  Claim C8. When the input is empty or white space only, or no conversation is selected,
  \<open>handleSendMessage\<close> returns the state it was given: nothing is sent and nothing is
  set. When the send request fails, the failure is logged after the one request, and the
  message list, the chat list and the input text are what they were.
\<close>

theorem send_guarded_and_failure_leaves_state:
  "(list_all is_whitespace (newMessage s) \<or> no_chat_selected (selectedChatId s) \<longrightarrow>
      handleSendMessage response s = s)
   \<and> (\<not> list_all is_whitespace (newMessage s) \<and> selectedChatId s = Some cid \<and> cid \<noteq> []
        \<and> fetch_json response = None \<longrightarrow>
        messages (handleSendMessage response s) = messages s
      \<and> chats (handleSendMessage response s) = chats s
      \<and> newMessage (handleSendMessage response s) = newMessage s
      \<and> added s (handleSendMessage response s)
          = [Request (Post_send cid (newMessage s) (WHAPI_ACCESS_TOKEN s)),
             Console_error ''Failed to send message:''])"
  by (auto simp: handleSendMessage_def effect_defs added_def no_chat_selected_def
      trim_empty_iff[symmetric] split: option.splits)

lemma blank_input: "list_all is_whitespace (newMessage state_blank_input)"
  by (simp add: state_blank_input_def setNewMessage_def is_whitespace_def)

lemma typing_input:
  "\<not> list_all is_whitespace (newMessage state_typing) \<and> selectedChatId state_typing = Some ''123''
    \<and> ''123'' \<noteq> [] \<and> fetch_json (Fetch_response False (None :: string option)) = None"
  by (simp add: state_typing_def state_reading_def state_chat_open_def effect_defs is_whitespace_def)

theorem send_guarded_and_failure_leaves_state_witness:
  "handleSendMessage (Fetch_response True (Some ''m2'')) state_blank_input = state_blank_input
   \<and> messages (handleSendMessage (Fetch_response False None) state_typing) = messages state_typing
   \<and> chats (handleSendMessage (Fetch_response False None) state_typing) = chats state_typing
   \<and> newMessage (handleSendMessage (Fetch_response False None) state_typing) = newMessage state_typing"
proof -
  note A = send_guarded_and_failure_leaves_state[where s = state_blank_input
      and response = "Fetch_response True (Some ''m2'')", THEN conjunct1, THEN mp,
      OF disjI1[OF blank_input]]
  note B = send_guarded_and_failure_leaves_state[where s = state_typing and cid = "''123''"
      and response = "Fetch_response False None", THEN conjunct2, THEN mp, OF typing_input]
  show ?thesis
    by (rule conjI[OF A conjI[OF B[THEN conjunct1] conjI[OF B[THEN conjunct2, THEN conjunct1]
          B[THEN conjunct2, THEN conjunct2, THEN conjunct1]]]])
qed

subsection \<open>Stored messages and the bubble width\<close>


















subsection \<open>Tenant resolution\<close>

lemma fetchChatsWithRetry_closure:
  "companyId (fetchChatsWithRetry r s) = companyId s"
  "ghlConfig (fetchChatsWithRetry r s) = ghlConfig s"
  "WHAPI_ACCESS_TOKEN (fetchChatsWithRetry r s) = WHAPI_ACCESS_TOKEN s"
  "firestore (fetchChatsWithRetry r s) = firestore s"
  by (simp_all add: fetchChatsWithRetry_def effect_defs split: option.splits)

lemma fetchChatsWithRetry_trace:
  "\<exists>es. trace (fetchChatsWithRetry r t) =
     trace t @ Set_loading True # Request (Get_chats (WHAPI_ACCESS_TOKEN t)) # es"
  by (simp add: fetchChatsWithRetry_def effect_defs split: option.splits)

text \<open>
  Claim C4. For a signed-in user with any other email than the two known ones, and when
  no user is signed in, \<open>fetchConfigFromDatabase\<close> leaves \<open>companyId\<close> at its initial
  \<open>'014'\<close> and reads that document; when the document is there, the function returns
  normally with the credentials and the gateway token of document \<open>'014'\<close>, and the chat
  list is requested with that token.
\<close>

theorem unknown_user_gets_tenant_014:
  assumes "user_email (currentUser e) \<noteq> Some ''admin@beverly.com''"
    and "user_email (currentUser e) \<noteq> Some ''admin@billert.com''"
    and "companyId s = ''014''"
  shows "companyId (snd (fetchConfigFromDatabase e s)) = ''014''
     \<and> take 1 (added s (snd (fetchConfigFromDatabase e s))) = [Firestore_get ''014'']
     \<and> (getDoc_error e = None \<and> firestore s ''014'' = Some data \<longrightarrow>
           fst (fetchConfigFromDatabase e s) = Returned
         \<and> ghlConfig (snd (fetchConfigFromDatabase e s))
             = \<lparr> ghl_id = data ''ghl_id'', ghl_secret = data ''ghl_secret'',
                 refresh_token = data ''refresh_token'' \<rparr>
         \<and> WHAPI_ACCESS_TOKEN (snd (fetchConfigFromDatabase e s)) = data ''whapiToken''
         \<and> take 3 (added s (snd (fetchConfigFromDatabase e s)))
             = [Firestore_get ''014'', Set_loading True, Request (Get_chats (data ''whapiToken''))])"
proof -
  let ?s2 = "emit (Firestore_get ''014'') s"
  have run: "fetchConfigFromDatabase e s =
      (case getDoc_error e of
         Some err \<Rightarrow> (Threw err, console_error ''Error fetching config:'' ?s2)
       | None \<Rightarrow>
           (case firestore s ''014'' of
              None \<Rightarrow> (Returned, ?s2)
            | Some data \<Rightarrow>
                (Returned,
                 fetchChatsWithRetry (chats_response e)
                   (?s2\<lparr> ghlConfig := \<lparr> ghl_id = data ''ghl_id'',
                                       ghl_secret = data ''ghl_secret'',
                                       refresh_token = data ''refresh_token'' \<rparr>,
                        WHAPI_ACCESS_TOKEN := data ''whapiToken'' \<rparr>))))"
    using assms by (simp add: fetchConfigFromDatabase_def Let_def emit_def split: option.splits)
  have A: "companyId (snd (fetchConfigFromDatabase e s)) = ''014''"
    using assms(3)
    by (simp add: run fetchChatsWithRetry_closure emit_def console_error_def split: option.splits)
  have B: "take 1 (added s (snd (fetchConfigFromDatabase e s))) = [Firestore_get ''014'']"
  proof (cases "getDoc_error e")
    case (Some err)
    then show ?thesis by (simp add: run added_def emit_def console_error_def)
  next
    case None
    show ?thesis
    proof (cases "firestore s ''014''")
      case N: None
      show ?thesis by (simp add: run None N added_def emit_def)
    next
      case (Some data)
      define s3 where "s3 = ?s2\<lparr> ghlConfig := \<lparr> ghl_id = data ''ghl_id'',
              ghl_secret = data ''ghl_secret'', refresh_token = data ''refresh_token'' \<rparr>,
            WHAPI_ACCESS_TOKEN := data ''whapiToken'' \<rparr>"
      obtain es where es: "trace (fetchChatsWithRetry (chats_response e) s3) =
          trace s3 @ Set_loading True # Request (Get_chats (WHAPI_ACCESS_TOKEN s3)) # es"
        using fetchChatsWithRetry_trace by blast
      have r: "snd (fetchConfigFromDatabase e s) = fetchChatsWithRetry (chats_response e) s3"
        by (simp add: run None Some s3_def)
      have t3: "trace s3 = trace s @ [Firestore_get ''014'']"
        by (simp add: s3_def emit_def)
      show ?thesis by (simp add: r es t3 added_def)
    qed
  qed
  have C: "getDoc_error e = None \<and> firestore s ''014'' = Some data \<longrightarrow>
           fst (fetchConfigFromDatabase e s) = Returned
         \<and> ghlConfig (snd (fetchConfigFromDatabase e s))
             = \<lparr> ghl_id = data ''ghl_id'', ghl_secret = data ''ghl_secret'',
                 refresh_token = data ''refresh_token'' \<rparr>
         \<and> WHAPI_ACCESS_TOKEN (snd (fetchConfigFromDatabase e s)) = data ''whapiToken''
         \<and> take 3 (added s (snd (fetchConfigFromDatabase e s)))
             = [Firestore_get ''014'', Set_loading True, Request (Get_chats (data ''whapiToken''))]"
  proof
    assume h: "getDoc_error e = None \<and> firestore s ''014'' = Some data"
    let ?s3 = "?s2\<lparr> ghlConfig := \<lparr> ghl_id = data ''ghl_id'', ghl_secret = data ''ghl_secret'',
                                     refresh_token = data ''refresh_token'' \<rparr>,
                      WHAPI_ACCESS_TOKEN := data ''whapiToken'' \<rparr>"
    have r: "fetchConfigFromDatabase e s = (Returned, fetchChatsWithRetry (chats_response e) ?s3)"
      using h by (simp add: run)
    obtain es where es: "trace (fetchChatsWithRetry (chats_response e) ?s3) =
        trace ?s3 @ Set_loading True # Request (Get_chats (WHAPI_ACCESS_TOKEN ?s3)) # es"
      using fetchChatsWithRetry_trace by blast
    have t3: "take 3 (added s (fetchChatsWithRetry (chats_response e) ?s3))
        = [Firestore_get ''014'', Set_loading True, Request (Get_chats (data ''whapiToken''))]"
      by (simp only: added_def es) (simp add: emit_def)
    show "fst (fetchConfigFromDatabase e s) = Returned
         \<and> ghlConfig (snd (fetchConfigFromDatabase e s))
             = \<lparr> ghl_id = data ''ghl_id'', ghl_secret = data ''ghl_secret'',
                 refresh_token = data ''refresh_token'' \<rparr>
         \<and> WHAPI_ACCESS_TOKEN (snd (fetchConfigFromDatabase e s)) = data ''whapiToken''
         \<and> take 3 (added s (snd (fetchConfigFromDatabase e s)))
             = [Firestore_get ''014'', Set_loading True, Request (Get_chats (data ''whapiToken''))]"
      by (simp add: r fetchChatsWithRetry_closure t3)
  qed
  show ?thesis
    by (rule conjI[OF A conjI[OF B C]])
qed

theorem unknown_user_gets_tenant_014_witness:
  "companyId (snd (fetchConfigFromDatabase env_stranger (Main_init two_tenants))) = ''014''
   \<and> fst (fetchConfigFromDatabase env_stranger (Main_init two_tenants)) = Returned
   \<and> WHAPI_ACCESS_TOKEN (snd (fetchConfigFromDatabase env_stranger (Main_init two_tenants)))
        = Some ''W-014''"
proof -
  have a: "user_email (currentUser env_stranger) \<noteq> Some ''admin@beverly.com''"
    by (simp add: env_stranger_def user_email_def)
  have b: "user_email (currentUser env_stranger) \<noteq> Some ''admin@billert.com''"
    by (simp add: env_stranger_def user_email_def)
  have c: "companyId (Main_init two_tenants) = ''014''"
    by (simp add: Main_init_def)
  have d: "getDoc_error env_stranger = None
      \<and> firestore (Main_init two_tenants) ''014'' = Some doc_beverly"
    by (simp add: env_stranger_def Main_init_def two_tenants_def)
  have w: "doc_beverly ''whapiToken'' = Some ''W-014''"
    by (simp add: doc_beverly_def)
  note T = unknown_user_gets_tenant_014[OF a b c, where data = doc_beverly]
  note U = T[THEN conjunct2, THEN conjunct2, THEN mp, OF d]
  show ?thesis
    using T[THEN conjunct1] U[THEN conjunct1] U[THEN conjunct2, THEN conjunct2, THEN conjunct1]
    by (simp only: w simp_thms)
qed

subsection \<open>Token refresh\<close>

text \<open>
  Claim C3, at the tenant \<open>admin@billert.com\<close> (company id \<open>'011'\<close>). The exchange is
  made with the credentials of document \<open>'011'\<close> and succeeds, and one search request
  follows with the new access token; but the new token pair is merged into document
  \<open>'014'\<close>, whose other fields stay, and document \<open>'011'\<close> is left with its old
  refresh token and no access token.
\<close>

theorem ghlToken_billert_writes_document_014:
  "fst (ghlToken env_billert (Main_init two_tenants)) = Returned
   \<and> companyId (snd (ghlToken env_billert (Main_init two_tenants))) = ''011''
   \<and> trace (snd (ghlToken env_billert (Main_init two_tenants))) =
       [Firestore_get ''011'', Set_loading True, Request (Get_chats (Some ''W-011'')), Set_loading False,
        Request (Post_oauth_token (Some ''id-011'') (Some ''secret-011'') (Some ''R-011'')),
        Firestore_set ''014'' [(''access_token'', ''A-new''), (''refresh_token'', ''R-new'')],
        Request (Get_contacts ''A-new'')]
   \<and> firestore (snd (ghlToken env_billert (Main_init two_tenants))) ''011'' = Some doc_billert
   \<and> field_of (firestore (snd (ghlToken env_billert (Main_init two_tenants)))) ''011'' ''access_token'' = None
   \<and> field_of (firestore (snd (ghlToken env_billert (Main_init two_tenants)))) ''011'' ''refresh_token'' = Some ''R-011''
   \<and> field_of (firestore (snd (ghlToken env_billert (Main_init two_tenants)))) ''014'' ''access_token'' = Some ''A-new''
   \<and> field_of (firestore (snd (ghlToken env_billert (Main_init two_tenants)))) ''014'' ''refresh_token'' = Some ''R-new''
   \<and> field_of (firestore (snd (ghlToken env_billert (Main_init two_tenants)))) ''014'' ''ghl_id'' = Some ''id-014''"
  by (simp add: ghlToken_def fetchConfigFromDatabase_def fetchChatsWithRetry_def searchConversation_def
      setDoc_merge_def merge_doc_def token_fields_def env_billert_def user_email_def Main_init_def
      two_tenants_def doc_billert_def doc_beverly_def field_of_def effect_defs)

lemma fetchConfig_threw:
  "getDoc_error e = Some err \<Longrightarrow>
   fst (fetchConfigFromDatabase e s) = Threw err
   \<and> trace (snd (fetchConfigFromDatabase e s))
        = trace s @ [Firestore_get (companyId (snd (fetchConfigFromDatabase e s))),
           Console_error ''Error fetching config:'']"
  by (simp add: fetchConfigFromDatabase_def Let_def effect_defs)

lemma fetchConfig_returned:
  "getDoc_error e = None \<Longrightarrow>
   fst (fetchConfigFromDatabase e s) = Returned
   \<and> firestore (snd (fetchConfigFromDatabase e s)) = firestore s
   \<and> (\<exists>es. trace (snd (fetchConfigFromDatabase e s)) = trace s @ es
         \<and> attempts is_oauth_request es = 0 \<and> attempts is_contacts_request es = 0
         \<and> attempts is_firestore_set es = 0 \<and> attempts is_firestore_get es = 1)"
  by (simp add: fetchConfigFromDatabase_def fetchChatsWithRetry_def Let_def effect_defs attempts_def
      split: option.splits)

text \<open>
  Claim C9, as the code has it. A failure inside \<open>ghlToken\<close> (loading the config, the
  token exchange, or the write of the new tokens) is logged by its \<open>catch\<close> and thrown on
  to the caller, with no second attempt: after the config load, which reads the document
  once, the function does exactly what the listed events say, one token request, at most
  one write, at most one search. A failure of the search request is logged by
  \<open>searchConversation\<close> and ends there: the function returns normally, and so does
  \<open>ghlToken\<close>; the search is not tried again either.
\<close>

theorem token_errors_rethrown_search_errors_swallowed:
  "(getDoc_error e = Some err \<longrightarrow>
      fst (ghlToken e s) = Threw err
    \<and> added s (snd (ghlToken e s))
        = [Firestore_get (companyId (snd (ghlToken e s))),
           Console_error ''Error fetching config:'',
           Console_error ''Error generating and updating token:''])
   \<and> (getDoc_error e = None \<and> oauth_response e = Axios_rejected err \<longrightarrow>
      fst (ghlToken e s) = Threw err
    \<and> last (trace (snd (ghlToken e s))) = Console_error ''Error generating and updating token:''
    \<and> attempts is_oauth_request (added s (snd (ghlToken e s))) = 1
    \<and> firestore (snd (ghlToken e s)) = firestore s
    \<and> trace (snd (ghlToken e s)) =
        trace (snd (fetchConfigFromDatabase e s))
        @ [Request (Post_oauth_token (ghl_id (ghlConfig (snd (fetchConfigFromDatabase e s))))
                      (ghl_secret (ghlConfig (snd (fetchConfigFromDatabase e s))))
                      (refresh_token (ghlConfig (snd (fetchConfigFromDatabase e s))))),
           Console_error ''Error generating and updating token:'']
    \<and> attempts is_firestore_get (added s (snd (ghlToken e s))) = 1
    \<and> attempts is_firestore_set (added s (snd (ghlToken e s))) = 0
    \<and> attempts is_contacts_request (added s (snd (ghlToken e s))) = 0)
   \<and> (getDoc_error e = None \<and> oauth_response e = Axios_response (Some newTokenData)
        \<and> setDoc_error e = Some err \<longrightarrow>
      fst (ghlToken e s) = Threw err
    \<and> last (trace (snd (ghlToken e s))) = Console_error ''Error generating and updating token:''
    \<and> attempts is_oauth_request (added s (snd (ghlToken e s))) = 1
    \<and> firestore (snd (ghlToken e s)) = firestore s
    \<and> trace (snd (ghlToken e s)) =
        trace (snd (fetchConfigFromDatabase e s))
        @ [Request (Post_oauth_token (ghl_id (ghlConfig (snd (fetchConfigFromDatabase e s))))
                      (ghl_secret (ghlConfig (snd (fetchConfigFromDatabase e s))))
                      (refresh_token (ghlConfig (snd (fetchConfigFromDatabase e s))))),
           Firestore_set ''014'' (token_fields newTokenData),
           Console_error ''Error generating and updating token:'']
    \<and> attempts is_firestore_get (added s (snd (ghlToken e s))) = 1
    \<and> attempts is_firestore_set (added s (snd (ghlToken e s))) = 1
    \<and> attempts is_contacts_request (added s (snd (ghlToken e s))) = 0)
   \<and> (fst (searchConversation (Some err) accessToken s) = Returned
    \<and> added s (snd (searchConversation (Some err) accessToken s))
        = [Request (Get_contacts accessToken), Console_error ''Error searching conversation:''])
   \<and> (getDoc_error e = None \<and> oauth_response e = Axios_response (Some newTokenData)
        \<and> setDoc_error e = None \<and> contacts_error e = Some err \<longrightarrow>
      fst (ghlToken e s) = Returned
    \<and> last (trace (snd (ghlToken e s))) = Console_error ''Error searching conversation:''
    \<and> attempts is_contacts_request (added s (snd (ghlToken e s))) = 1
    \<and> trace (snd (ghlToken e s)) =
        trace (snd (fetchConfigFromDatabase e s))
        @ [Request (Post_oauth_token (ghl_id (ghlConfig (snd (fetchConfigFromDatabase e s))))
                      (ghl_secret (ghlConfig (snd (fetchConfigFromDatabase e s))))
                      (refresh_token (ghlConfig (snd (fetchConfigFromDatabase e s))))),
           Firestore_set ''014'' (token_fields newTokenData),
           Request (Get_contacts (new_access_token newTokenData)),
           Console_error ''Error searching conversation:'']
    \<and> attempts is_firestore_get (added s (snd (ghlToken e s))) = 1
    \<and> attempts is_oauth_request (added s (snd (ghlToken e s))) = 1
    \<and> attempts is_firestore_set (added s (snd (ghlToken e s))) = 1)"
proof -
  obtain c s1 where cfg: "fetchConfigFromDatabase e s = (c, s1)"
    by (cases "fetchConfigFromDatabase e s")
  have A: "getDoc_error e = Some err \<longrightarrow>
      fst (ghlToken e s) = Threw err
    \<and> added s (snd (ghlToken e s))
        = [Firestore_get (companyId (snd (ghlToken e s))),
           Console_error ''Error fetching config:'',
           Console_error ''Error generating and updating token:'']"
  proof
    assume h: "getDoc_error e = Some err"
    have c: "c = Threw err"
      and a: "trace s1 = trace s @ [Firestore_get (companyId s1), Console_error ''Error fetching config:'']"
      using fetchConfig_threw[OF h, of s] by (simp_all add: cfg)
    show "fst (ghlToken e s) = Threw err
      \<and> added s (snd (ghlToken e s))
        = [Firestore_get (companyId (snd (ghlToken e s))),
           Console_error ''Error fetching config:'',
           Console_error ''Error generating and updating token:'']"
      by (simp add: ghlToken_def cfg c ghlToken_catch_def console_error_def emit_def added_def a)
  qed
  have B: "getDoc_error e = None \<and> oauth_response e = Axios_rejected err \<longrightarrow>
      fst (ghlToken e s) = Threw err
    \<and> last (trace (snd (ghlToken e s))) = Console_error ''Error generating and updating token:''
    \<and> attempts is_oauth_request (added s (snd (ghlToken e s))) = 1
    \<and> firestore (snd (ghlToken e s)) = firestore s
    \<and> trace (snd (ghlToken e s)) =
        trace (snd (fetchConfigFromDatabase e s))
        @ [Request (Post_oauth_token (ghl_id (ghlConfig (snd (fetchConfigFromDatabase e s))))
                      (ghl_secret (ghlConfig (snd (fetchConfigFromDatabase e s))))
                      (refresh_token (ghlConfig (snd (fetchConfigFromDatabase e s))))),
           Console_error ''Error generating and updating token:'']
    \<and> attempts is_firestore_get (added s (snd (ghlToken e s))) = 1
    \<and> attempts is_firestore_set (added s (snd (ghlToken e s))) = 0
    \<and> attempts is_contacts_request (added s (snd (ghlToken e s))) = 0"
  proof
    assume h: "getDoc_error e = None \<and> oauth_response e = Axios_rejected err"
    obtain es where c: "c = Returned" and f: "firestore s1 = firestore s"
      and t: "trace s1 = trace s @ es" and n: "attempts is_oauth_request es = 0"
      "attempts is_contacts_request es = 0" "attempts is_firestore_set es = 0"
      "attempts is_firestore_get es = 1"
      using fetchConfig_returned[of e s] h by (auto simp: cfg)
    show "fst (ghlToken e s) = Threw err
    \<and> last (trace (snd (ghlToken e s))) = Console_error ''Error generating and updating token:''
    \<and> attempts is_oauth_request (added s (snd (ghlToken e s))) = 1
    \<and> firestore (snd (ghlToken e s)) = firestore s
    \<and> trace (snd (ghlToken e s)) =
        trace (snd (fetchConfigFromDatabase e s))
        @ [Request (Post_oauth_token (ghl_id (ghlConfig (snd (fetchConfigFromDatabase e s))))
                      (ghl_secret (ghlConfig (snd (fetchConfigFromDatabase e s))))
                      (refresh_token (ghlConfig (snd (fetchConfigFromDatabase e s))))),
           Console_error ''Error generating and updating token:'']
    \<and> attempts is_firestore_get (added s (snd (ghlToken e s))) = 1
    \<and> attempts is_firestore_set (added s (snd (ghlToken e s))) = 0
    \<and> attempts is_contacts_request (added s (snd (ghlToken e s))) = 0"
      using h n
      by (simp add: ghlToken_def cfg c ghlToken_catch_def effect_defs added_def t f attempts_def)
  qed
  have C: "getDoc_error e = None \<and> oauth_response e = Axios_response (Some newTokenData)
        \<and> setDoc_error e = Some err \<longrightarrow>
      fst (ghlToken e s) = Threw err
    \<and> last (trace (snd (ghlToken e s))) = Console_error ''Error generating and updating token:''
    \<and> attempts is_oauth_request (added s (snd (ghlToken e s))) = 1
    \<and> firestore (snd (ghlToken e s)) = firestore s
    \<and> trace (snd (ghlToken e s)) =
        trace (snd (fetchConfigFromDatabase e s))
        @ [Request (Post_oauth_token (ghl_id (ghlConfig (snd (fetchConfigFromDatabase e s))))
                      (ghl_secret (ghlConfig (snd (fetchConfigFromDatabase e s))))
                      (refresh_token (ghlConfig (snd (fetchConfigFromDatabase e s))))),
           Firestore_set ''014'' (token_fields newTokenData),
           Console_error ''Error generating and updating token:'']
    \<and> attempts is_firestore_get (added s (snd (ghlToken e s))) = 1
    \<and> attempts is_firestore_set (added s (snd (ghlToken e s))) = 1
    \<and> attempts is_contacts_request (added s (snd (ghlToken e s))) = 0"
  proof
    assume h: "getDoc_error e = None \<and> oauth_response e = Axios_response (Some newTokenData)
        \<and> setDoc_error e = Some err"
    obtain es where c: "c = Returned" and f: "firestore s1 = firestore s"
      and t: "trace s1 = trace s @ es" and n: "attempts is_oauth_request es = 0"
      "attempts is_contacts_request es = 0" "attempts is_firestore_set es = 0"
      "attempts is_firestore_get es = 1"
      using fetchConfig_returned[of e s] h by (auto simp: cfg)
    show "fst (ghlToken e s) = Threw err
    \<and> last (trace (snd (ghlToken e s))) = Console_error ''Error generating and updating token:''
    \<and> attempts is_oauth_request (added s (snd (ghlToken e s))) = 1
    \<and> firestore (snd (ghlToken e s)) = firestore s
    \<and> trace (snd (ghlToken e s)) =
        trace (snd (fetchConfigFromDatabase e s))
        @ [Request (Post_oauth_token (ghl_id (ghlConfig (snd (fetchConfigFromDatabase e s))))
                      (ghl_secret (ghlConfig (snd (fetchConfigFromDatabase e s))))
                      (refresh_token (ghlConfig (snd (fetchConfigFromDatabase e s))))),
           Firestore_set ''014'' (token_fields newTokenData),
           Console_error ''Error generating and updating token:'']
    \<and> attempts is_firestore_get (added s (snd (ghlToken e s))) = 1
    \<and> attempts is_firestore_set (added s (snd (ghlToken e s))) = 1
    \<and> attempts is_contacts_request (added s (snd (ghlToken e s))) = 0"
      using h n
      by (simp add: ghlToken_def cfg c ghlToken_catch_def effect_defs added_def t f attempts_def)
  qed
  have D: "fst (searchConversation (Some err) accessToken s) = Returned
    \<and> added s (snd (searchConversation (Some err) accessToken s))
        = [Request (Get_contacts accessToken), Console_error ''Error searching conversation:'']"
    by (simp add: searchConversation_def effect_defs added_def)
  have E: "getDoc_error e = None \<and> oauth_response e = Axios_response (Some newTokenData)
        \<and> setDoc_error e = None \<and> contacts_error e = Some err \<longrightarrow>
      fst (ghlToken e s) = Returned
    \<and> last (trace (snd (ghlToken e s))) = Console_error ''Error searching conversation:''
    \<and> attempts is_contacts_request (added s (snd (ghlToken e s))) = 1
    \<and> trace (snd (ghlToken e s)) =
        trace (snd (fetchConfigFromDatabase e s))
        @ [Request (Post_oauth_token (ghl_id (ghlConfig (snd (fetchConfigFromDatabase e s))))
                      (ghl_secret (ghlConfig (snd (fetchConfigFromDatabase e s))))
                      (refresh_token (ghlConfig (snd (fetchConfigFromDatabase e s))))),
           Firestore_set ''014'' (token_fields newTokenData),
           Request (Get_contacts (new_access_token newTokenData)),
           Console_error ''Error searching conversation:'']
    \<and> attempts is_firestore_get (added s (snd (ghlToken e s))) = 1
    \<and> attempts is_oauth_request (added s (snd (ghlToken e s))) = 1
    \<and> attempts is_firestore_set (added s (snd (ghlToken e s))) = 1"
  proof
    assume h: "getDoc_error e = None \<and> oauth_response e = Axios_response (Some newTokenData)
        \<and> setDoc_error e = None \<and> contacts_error e = Some err"
    obtain es where c: "c = Returned"
      and t: "trace s1 = trace s @ es" and n: "attempts is_oauth_request es = 0"
      "attempts is_contacts_request es = 0" "attempts is_firestore_set es = 0"
      "attempts is_firestore_get es = 1"
      using fetchConfig_returned[of e s] h by (auto simp: cfg)
    show "fst (ghlToken e s) = Returned
    \<and> last (trace (snd (ghlToken e s))) = Console_error ''Error searching conversation:''
    \<and> attempts is_contacts_request (added s (snd (ghlToken e s))) = 1
    \<and> trace (snd (ghlToken e s)) =
        trace (snd (fetchConfigFromDatabase e s))
        @ [Request (Post_oauth_token (ghl_id (ghlConfig (snd (fetchConfigFromDatabase e s))))
                      (ghl_secret (ghlConfig (snd (fetchConfigFromDatabase e s))))
                      (refresh_token (ghlConfig (snd (fetchConfigFromDatabase e s))))),
           Firestore_set ''014'' (token_fields newTokenData),
           Request (Get_contacts (new_access_token newTokenData)),
           Console_error ''Error searching conversation:'']
    \<and> attempts is_firestore_get (added s (snd (ghlToken e s))) = 1
    \<and> attempts is_oauth_request (added s (snd (ghlToken e s))) = 1
    \<and> attempts is_firestore_set (added s (snd (ghlToken e s))) = 1"
      using h n
      by (simp add: ghlToken_def cfg c searchConversation_def setDoc_merge_def effect_defs
          added_def t attempts_def)
  qed
  show ?thesis
    by (rule conjI[OF A conjI[OF B conjI[OF C conjI[OF D E]]]])
qed

lemma stranger_envs:
  "getDoc_error env_getDoc_down = Some (Error ''unavailable'')"
  "getDoc_error env_oauth_down = None \<and> oauth_response env_oauth_down = Axios_rejected (Error ''401'')"
  "getDoc_error env_setDoc_down = None
    \<and> oauth_response env_setDoc_down
        = Axios_response (Some \<lparr> new_access_token = ''A-new'', new_refresh_token = ''R-new'' \<rparr>)
    \<and> setDoc_error env_setDoc_down = Some (Error ''permission-denied'')"
  "getDoc_error env_search_down = None
    \<and> oauth_response env_search_down
        = Axios_response (Some \<lparr> new_access_token = ''A-new'', new_refresh_token = ''R-new'' \<rparr>)
    \<and> setDoc_error env_search_down = None
    \<and> contacts_error env_search_down = Some (Error ''Network Error'')"
  by (simp_all add: env_getDoc_down_def env_oauth_down_def env_setDoc_down_def env_search_down_def
      env_stranger_def)

theorem token_errors_rethrown_search_errors_swallowed_witness:
  "fst (ghlToken env_getDoc_down (Main_init two_tenants)) = Threw (Error ''unavailable'')
   \<and> fst (ghlToken env_oauth_down (Main_init two_tenants)) = Threw (Error ''401'')
   \<and> fst (ghlToken env_setDoc_down (Main_init two_tenants)) = Threw (Error ''permission-denied'')
   \<and> fst (ghlToken env_search_down (Main_init two_tenants)) = Returned
   \<and> last (trace (snd (ghlToken env_search_down (Main_init two_tenants))))
        = Console_error ''Error searching conversation:''"
proof -
  note T1 = token_errors_rethrown_search_errors_swallowed[where e = env_getDoc_down
      and s = "Main_init two_tenants" and err = "Error ''unavailable''",
      THEN conjunct1, THEN mp, OF stranger_envs(1)]
  note T2 = token_errors_rethrown_search_errors_swallowed[where e = env_oauth_down
      and s = "Main_init two_tenants" and err = "Error ''401''",
      THEN conjunct2, THEN conjunct1, THEN mp, OF stranger_envs(2)]
  note T3 = token_errors_rethrown_search_errors_swallowed[where e = env_setDoc_down
      and s = "Main_init two_tenants" and err = "Error ''permission-denied''",
      THEN conjunct2, THEN conjunct2, THEN conjunct1, THEN mp, OF stranger_envs(3)]
  note T5 = token_errors_rethrown_search_errors_swallowed[where e = env_search_down
      and s = "Main_init two_tenants" and err = "Error ''Network Error''",
      THEN conjunct2, THEN conjunct2, THEN conjunct2, THEN conjunct2, THEN mp, OF stranger_envs(4)]
  show ?thesis
    by (rule conjI[OF T1[THEN conjunct1] conjI[OF T2[THEN conjunct1] conjI[OF T3[THEN conjunct1]
          conjI[OF T5[THEN conjunct1] T5[THEN conjunct2, THEN conjunct1]]]]])
qed

theorem search_error_rethrown_counterexample:
  "fst (searchConversation (Some (Error ''Network Error'')) ''A-new'' (Main_init two_tenants))
     \<noteq> Threw (Error ''Network Error'')"
  by (simp add: searchConversation_def)

end
